theory Spec2Isabelle
  imports Complex_Main
begin

section \<open>Numbers and points\<close>

text \<open>
  JavaScript numbers are modelled as real numbers: arithmetic is exact, and NaN and the
  infinities are not values of the model (in HOL \<open>x / 0 = 0\<close>; where the source can
  divide by zero the theorems below say so).
\<close>

text \<open>
  Modelled from the spec: the class \<open>Point\<close> of \<open>geo/Point\<close> is imported by both source
  files but is not among them. The spec (section 3) gives it as a 2D coordinate with
  vector arithmetic (add, subtract, scale, unit-normalize, perpendicular): the datatype
  and the operations that follow it (\<open>mag\<close> is the length that \<open>unit\<close> divides by, and
  \<open>dot\<close> the inner product, which states orthogonality). The in-place variants of the source (\<open>_add\<close>,
  \<open>_multi\<close>, \<open>_unit\<close>, \<open>_perp\<close>) are the same functions; the mutation is written as
  rebinding. The perpendicular of \<open>(x, y)\<close> is taken as \<open>(-y, x)\<close>.
\<close>

datatype Point = Point (px: real) (py: real)

definition add :: "Point \<Rightarrow> Point \<Rightarrow> Point" where
  "add p q = Point (px p + px q) (py p + py q)"

definition substract :: "Point \<Rightarrow> Point \<Rightarrow> Point" where
  "substract p q = Point (px p - px q) (py p - py q)"

definition multi :: "Point \<Rightarrow> real \<Rightarrow> Point" where
  "multi p k = Point (px p * k) (py p * k)"

definition mag :: "Point \<Rightarrow> real" where
  "mag p = sqrt (px p * px p + py p * py p)"

definition unit :: "Point \<Rightarrow> Point" where
  "unit p = Point (px p / mag p) (py p / mag p)"

definition perp :: "Point \<Rightarrow> Point" where
  "perp p = Point (- py p) (px p)"

definition dot :: "Point \<Rightarrow> Point \<Rightarrow> real" where
  "dot p q = px p * px q + py p * py q"

text \<open>
  Where the source can divide by zero, the result is a JavaScript number with the
  infinities and NaN: the quotient \<open>n / d\<close> of two numbers, \<open>Math.atan\<close>, a product with
  a number, and a sum or difference with a number. (The zero of the real numbers stands
  for the positive zero.) A \<open>jsPoint\<close> is a \<open>Point\<close> object whose coordinates are such
  numbers; \<open>addPoint\<close> is \<open>_add\<close> on it.
\<close>

datatype jsNumber = Finite real | PosInfinity | NegInfinity | NaN

definition jsDivide :: "real \<Rightarrow> real \<Rightarrow> jsNumber" where
  "jsDivide n d =
     (if d \<noteq> 0 then Finite (n / d)
      else if n = 0 then NaN
      else if 0 < n then PosInfinity
      else NegInfinity)"

definition jsAtan :: "jsNumber \<Rightarrow> jsNumber" where
  "jsAtan q =
     (case q of
        Finite r \<Rightarrow> Finite (arctan r)
      | PosInfinity \<Rightarrow> Finite (pi / 2)
      | NegInfinity \<Rightarrow> Finite (- (pi / 2))
      | NaN \<Rightarrow> NaN)"

definition jsScale :: "jsNumber \<Rightarrow> real \<Rightarrow> jsNumber" where
  "jsScale q k =
     (case q of
        Finite r \<Rightarrow> Finite (r * k)
      | PosInfinity \<Rightarrow> (if k = 0 then NaN else if 0 < k then PosInfinity else NegInfinity)
      | NegInfinity \<Rightarrow> (if k = 0 then NaN else if 0 < k then NegInfinity else PosInfinity)
      | NaN \<Rightarrow> NaN)"

definition jsAdd :: "jsNumber \<Rightarrow> real \<Rightarrow> jsNumber" where
  "jsAdd q b = (case q of Finite r \<Rightarrow> Finite (r + b) | other \<Rightarrow> other)"

definition jsSubFrom :: "real \<Rightarrow> jsNumber \<Rightarrow> jsNumber" where
  "jsSubFrom a q =
     (case q of
        Finite r \<Rightarrow> Finite (a - r)
      | PosInfinity \<Rightarrow> NegInfinity
      | NegInfinity \<Rightarrow> PosInfinity
      | NaN \<Rightarrow> NaN)"

datatype jsPoint = JsPoint jsNumber jsNumber

definition finitePoint :: "Point \<Rightarrow> jsPoint" where
  "finitePoint p = JsPoint (Finite (px p)) (Finite (py p))"

definition addPoint :: "jsPoint \<Rightarrow> Point \<Rightarrow> jsPoint" where
  "addPoint v p = (case v of JsPoint a b \<Rightarrow> JsPoint (jsAdd a (px p)) (jsAdd b (py p)))"

section \<open>Line arrows (VectorRenderer.js)\<close>

text \<open>
  \<open>arrowStyle\<close> is a two-element array of factors (\<open>arrowStyles.classic = [3, 4]\<close>), read
  at the indices 0 and 1 only: a pair. \<open>tolerance\<close> may be left out by the caller
  (\<open>_paintArrow\<close> does): \<open>None\<close> is \<open>undefined\<close>, and \<open>!tolerance\<close> also holds for 0.
\<close>

type_synonym arrowStyle = "real \<times> real"

definition getArrowPoints ::
  "Point \<Rightarrow> Point \<Rightarrow> real \<Rightarrow> arrowStyle \<Rightarrow> real option \<Rightarrow> Point list" where
  "getArrowPoints prePoint point lineWidth arrowStyle tolerance0 =
     (let tolerance = (case tolerance0 of None \<Rightarrow> 0 | Some t \<Rightarrow> t);
          width = lineWidth * fst arrowStyle;
          height = lineWidth * snd arrowStyle + tolerance;
          hw = width / 2 + tolerance;
          normal = unit (substract point prePoint);
          p1 = substract point (multi normal height);
          normal1 = perp normal;
          p0 = add p1 (multi normal1 hw);
          normal2 = multi normal1 (- 1);
          p2 = add p1 (multi normal2 hw)
      in [p0, point, p2, p0])"

text \<open>
  A path is a flat array of points, or an array of such arrays when the geometry was
  split (\<open>isSplitted\<close>: the first element is an array).
\<close>

datatype path = Flat "Point list" | Splitted "Point list list"

datatype arrowStyleOption = StyleArray arrowStyle | StyleName string

record lineOptions =
  optArrowStyle :: "arrowStyleOption option"
  optArrowPlacement :: "string option"

datatype jsError = TypeError | UnsupportedMarkerType string

definition arrowStyles :: "(string \<times> arrowStyle) list" where
  "arrowStyles = [(''classic'', (3, 4))]"

definition getArrowPlacement :: "lineOptions \<Rightarrow> string option" where
  "getArrowPlacement opts = optArrowPlacement opts"

text \<open>
  \<open>arrowStyles\<close> is an object literal: besides its own key \<open>classic\<close>, a property read
  on it finds the properties it inherits from \<open>Object.prototype\<close>, which are functions
  (and, for \<open>__proto__\<close>, the prototype object): truthy values that are not arrays.
\<close>

definition objectPrototypeKeys :: "string list" where
  "objectPrototypeKeys =
     [''constructor'', ''hasOwnProperty'', ''isPrototypeOf'', ''propertyIsEnumerable'',
      ''toLocaleString'', ''toString'', ''valueOf'', ''__proto__'', ''__defineGetter__'',
      ''__defineSetter__'', ''__lookupGetter__'', ''__lookupSetter__'']"

datatype arrowStyleValue = Factors arrowStyle | InheritedProperty string

text \<open>
  \<open>_getArrowStyle\<close>: a falsy option (unset, or the empty name) gives null; an array is
  taken as it is; a name is looked up in \<open>arrowStyles\<close>: it gives the factors of an own
  key, the inherited property of an inherited key, and \<open>undefined\<close> otherwise, which
  \<open>_getArrows\<close> treats like null.
\<close>

definition getArrowStyle :: "lineOptions \<Rightarrow> arrowStyleValue option" where
  "getArrowStyle opts =
     (case optArrowStyle opts of
        None \<Rightarrow> None
      | Some (StyleArray a) \<Rightarrow> Some (Factors a)
      | Some (StyleName n) \<Rightarrow>
          (if n = [] then None
           else (case map_of arrowStyles n of
                   Some a \<Rightarrow> Some (Factors a)
                 | None \<Rightarrow>
                     (if n \<in> set objectPrototypeKeys then Some (InheritedProperty n)
                      else None))))"

text \<open>
  \<open>segments[i][k]\<close>: an index outside the array reads \<open>undefined\<close>.
\<close>

definition elemAt :: "'a list \<Rightarrow> int \<Rightarrow> 'a option" where
  "elemAt xs i = (if 0 \<le> i \<and> i < int (length xs) then Some (xs ! nat i) else None)"

text \<open>
  The value of a call \<open>_getArrowPoints(prePoint, point, ...)\<close> as \<open>_getArrows\<close> makes it.
  With an array of factors and two different points it is the kite of \<open>getArrowPoints\<close>.
  With the same point twice, the vector normalized by \<open>_unit\<close> is \<open>(0, 0)\<close> and both its
  coordinates become \<open>0 / 0\<close>, NaN; with an inherited property for the style,
  \<open>arrowStyle[0]\<close> and \<open>arrowStyle[1]\<close> are \<open>undefined\<close> and the width and the height are
  NaN. In both cases every coordinate of the three computed points is NaN, and the
  result is \<open>[p0, point, p2, p0]\<close> with these.
\<close>

definition callGetArrowPoints ::
  "Point \<Rightarrow> Point \<Rightarrow> real \<Rightarrow> arrowStyleValue \<Rightarrow> real option \<Rightarrow> jsPoint list" where
  "callGetArrowPoints prePoint point lineWidth arrowStyle tolerance =
     (case arrowStyle of
        Factors factors \<Rightarrow>
          (if prePoint = point
           then [JsPoint NaN NaN, finitePoint point, JsPoint NaN NaN, JsPoint NaN NaN]
           else map finitePoint (getArrowPoints prePoint point lineWidth factors tolerance))
      | InheritedProperty n \<Rightarrow>
          [JsPoint NaN NaN, finitePoint point, JsPoint NaN NaN, JsPoint NaN NaN])"

text \<open>
  A call \<open>_getArrowPoints(prePoint, point, ...)\<close> with an \<open>undefined\<close> point: calling
  \<open>point.substract\<close> on \<open>undefined\<close>, or reading the coordinates of an \<open>undefined\<close>
  argument, raises a TypeError.
\<close>

definition arrowAt ::
  "Point option \<Rightarrow> Point option \<Rightarrow> real \<Rightarrow> arrowStyleValue \<Rightarrow> real option
     \<Rightarrow> jsError + jsPoint list" where
  "arrowAt prePoint point lineWidth arrowStyle tolerance =
     (case (prePoint, point) of
        (Some a, Some b) \<Rightarrow> Inr (callGetArrowPoints a b lineWidth arrowStyle tolerance)
      | _ \<Rightarrow> Inl TypeError)"

text \<open>The inner loop of the \<open>point\<close> placement: \<open>for (ii = 0; ii < ll; ii++)\<close>.\<close>

function pointLoop ::
  "Point list \<Rightarrow> real \<Rightarrow> arrowStyleValue \<Rightarrow> real option \<Rightarrow> int \<Rightarrow> int \<Rightarrow> jsPoint list list
     \<Rightarrow> jsError + jsPoint list list" where
  "pointLoop seg lineWidth arrowStyle tolerance ii ll arrows =
     (if ii < ll then
        (case arrowAt (elemAt seg ii) (elemAt seg (ii + 1)) lineWidth arrowStyle tolerance of
           Inl e \<Rightarrow> Inl e
         | Inr a \<Rightarrow> pointLoop seg lineWidth arrowStyle tolerance (ii + 1) ll (arrows @ [a]))
      else Inr arrows)"
  by pat_completeness auto
termination
  by (relation "measure (\<lambda>(seg, lineWidth, arrowStyle, tolerance, ii, ll, arrows). nat (ll - ii))") auto

declare pointLoop.simps [simp del]

text \<open>
  The body of the loop over the segments, for one segment: the first \<open>if\<close>, then the
  \<open>if\<close> / \<open>else if\<close> pair. \<open>arrows\<close> is the array the arrows are pushed to.
\<close>

definition segmentArrows ::
  "string option \<Rightarrow> Point list \<Rightarrow> real \<Rightarrow> arrowStyleValue \<Rightarrow> real option \<Rightarrow> jsPoint list list
     \<Rightarrow> jsError + jsPoint list list" where
  "segmentArrows placement seg lineWidth arrowStyle tolerance arrows0 =
     (case (if placement = Some ''vertex-first'' \<or> placement = Some ''vertex-firstlast''
            then (case arrowAt (elemAt seg 1) (elemAt seg 0) lineWidth arrowStyle tolerance of
                    Inl e \<Rightarrow> Inl e
                  | Inr a \<Rightarrow> Inr (arrows0 @ [a]))
            else Inr arrows0) of
        Inl e \<Rightarrow> Inl e
      | Inr arrows1 \<Rightarrow>
          (if placement = Some ''vertex-last'' \<or> placement = Some ''vertex-firstlast''
           then (case arrowAt (elemAt seg (int (length seg) - 2)) (elemAt seg (int (length seg) - 1))
                        lineWidth arrowStyle tolerance of
                   Inl e \<Rightarrow> Inl e
                 | Inr a \<Rightarrow> Inr (arrows1 @ [a]))
           else if placement = Some ''point''
           then pointLoop seg lineWidth arrowStyle tolerance 0 (int (length seg) - 1) arrows1
           else Inr arrows1))"

text \<open>
  \<open>for (let i = segments.length - 1; i >= 0; i--)\<close>: the counter is \<open>i + 1\<close>.
\<close>

fun segmentsLoop ::
  "string option \<Rightarrow> Point list list \<Rightarrow> real \<Rightarrow> arrowStyleValue \<Rightarrow> real option \<Rightarrow> nat
     \<Rightarrow> jsPoint list list \<Rightarrow> jsError + jsPoint list list" where
  "segmentsLoop placement segments lineWidth arrowStyle tolerance 0 arrows = Inr arrows"
| "segmentsLoop placement segments lineWidth arrowStyle tolerance (Suc i) arrows =
     (case segmentArrows placement (segments ! i) lineWidth arrowStyle tolerance arrows of
        Inl e \<Rightarrow> Inl e
      | Inr arrows' \<Rightarrow> segmentsLoop placement segments lineWidth arrowStyle tolerance i arrows')"

definition pathLength :: "path \<Rightarrow> nat" where
  "pathLength points = (case points of Flat ps \<Rightarrow> length ps | Splitted ss \<Rightarrow> length ss)"

text \<open>\<open>const segments = isSplitted ? points : [points]\<close>.\<close>

definition pathSegments :: "path \<Rightarrow> Point list list" where
  "pathSegments points = (case points of Flat ps \<Rightarrow> [ps] | Splitted ss \<Rightarrow> ss)"

text \<open>\<open>_getArrows\<close>: \<open>None\<close> is the result \<open>null\<close>.\<close>

definition getArrows ::
  "lineOptions \<Rightarrow> path \<Rightarrow> real \<Rightarrow> real option \<Rightarrow> jsError + jsPoint list list option" where
  "getArrows opts points lineWidth tolerance =
     (case getArrowStyle opts of
        None \<Rightarrow> Inr None
      | Some arrowStyle \<Rightarrow>
          (if pathLength points < 2 then Inr None
           else
             (let segments = pathSegments points;
                  placement = getArrowPlacement opts
              in case segmentsLoop placement segments lineWidth arrowStyle tolerance
                        (length segments) [] of
                   Inl e \<Rightarrow> Inl e
                 | Inr arrows \<Rightarrow> Inr (if length arrows > 0 then Some arrows else None))))"

section \<open>Styles of the vector marker (VectorMarkerSymbolizer.js)\<close>

text \<open>
  A colour attribute holds a colour string or a gradient object. The structure of a
  gradient object is not used by the source files: it is the type parameter \<open>'g\<close>.
\<close>

datatype 'g paint = Color string | Gradient 'g

text \<open>
  Modelled from the spec: \<open>isGradient\<close> and \<open>getGradientStamp\<close> of \<open>core/util/style\<close> are
  not among the source files; the spec (section 6) names them as gradient detection and a
  gradient-to-stable-string stamping function. Detection is the case distinction of the
  type; the stamping function is a parameter of \<open>stampSymbol\<close>.
\<close>

definition isGradient :: "'g paint \<Rightarrow> bool" where
  "isGradient p = (case p of Gradient g \<Rightarrow> True | Color c \<Rightarrow> False)"

text \<open>
  The symbol definition a caller supplies: every attribute may be left out (\<open>None\<close>).
\<close>

record 'g symbol =
  sym_markerType :: "string option"
  sym_markerFill :: "'g paint option"
  sym_markerFillOpacity :: "real option"
  sym_markerFillPatternFile :: "string option"
  sym_markerLineColor :: "'g paint option"
  sym_markerLineWidth :: "real option"
  sym_markerLineOpacity :: "real option"
  sym_markerLineDasharray :: "real list option"
  sym_markerLinePatternFile :: "string option"
  sym_markerWidth :: "real option"
  sym_markerHeight :: "real option"
  sym_markerDx :: "real option"
  sym_markerDy :: "real option"
  sym_markerOpacity :: "real option"

text \<open>
  The object \<open>translate\<close> returns, with exactly its thirteen keys. A pattern file is a
  path or \<open>null\<close> (\<open>None\<close>).
\<close>

record 'g markerStyle =
  markerType :: string
  markerFill :: "'g paint"
  markerFillOpacity :: real
  markerFillPatternFile :: "string option"
  markerLineColor :: "'g paint"
  markerLineWidth :: real
  markerLineOpacity :: real
  markerLineDasharray :: "real list"
  markerLinePatternFile :: "string option"
  markerWidth :: real
  markerHeight :: real
  markerDx :: real
  markerDy :: real

text \<open>
  Modelled from the spec: \<open>PointExtent\<close> of \<open>geo/PointExtent\<close> is not among the source
  files; the spec (section 4.3) uses it as a bounding box built from two corner points,
  combined with points and expanded by a distance.
\<close>

record extent =
  xmin :: real
  ymin :: real
  xmax :: real
  ymax :: real

definition newPointExtent :: "Point \<Rightarrow> Point \<Rightarrow> extent" where
  "newPointExtent p q =
     \<lparr>xmin = min (px p) (px q), ymin = min (py p) (py q),
      xmax = max (px p) (px q), ymax = max (py p) (py q)\<rparr>"

definition expand :: "extent \<Rightarrow> real \<Rightarrow> extent" where
  "expand e d = \<lparr>xmin = xmin e - d, ymin = ymin e - d, xmax = xmax e + d, ymax = ymax e + d\<rparr>"

text \<open>
  The object \<open>translateLineAndFill\<close> returns, with its ten keys, and the two gradient
  extents \<open>_drawVectorMarker\<close> assigns to it later (unset at first).
\<close>

record 'g strokeAndFill =
  lineColor :: "'g paint"
  linePatternFile :: "string option"
  lineWidth :: real
  lineOpacity :: real
  lineDasharray :: "real list option"
  lineCap :: string
  lineJoin :: string
  polygonFill :: "'g paint"
  polygonPatternFile :: "string option"
  polygonOpacity :: real
  lineGradientExtent :: "extent option"
  polygonGradientExtent :: "extent option"

text \<open>
  Modelled from the spec: \<open>getValueOrDefault\<close> of \<open>core/util\<close> is not among the source
  files; by the spec (section 4.1) every field takes the caller-supplied value or a fixed
  default.
\<close>

definition getValueOrDefault :: "'a option \<Rightarrow> 'a \<Rightarrow> 'a" where
  "getValueOrDefault v d = (case v of None \<Rightarrow> d | Some a \<Rightarrow> a)"

text \<open>
  \<open>translate\<close>. \<open>isNumber(s['markerOpacity'])\<close> holds when the attribute is given (its
  type is a number).
\<close>

definition translate :: "'g symbol \<Rightarrow> 'g markerStyle" where
  "translate s =
     (let result =
        \<lparr>markerType = getValueOrDefault (sym_markerType s) ''ellipse'',
         markerFill = getValueOrDefault (sym_markerFill s) (Color ''#00f''),
         markerFillOpacity = getValueOrDefault (sym_markerFillOpacity s) 1,
         markerFillPatternFile = getValueOrDefault (map_option Some (sym_markerFillPatternFile s)) None,
         markerLineColor = getValueOrDefault (sym_markerLineColor s) (Color ''#000''),
         markerLineWidth = getValueOrDefault (sym_markerLineWidth s) 1,
         markerLineOpacity = getValueOrDefault (sym_markerLineOpacity s) 1,
         markerLineDasharray = getValueOrDefault (sym_markerLineDasharray s) [],
         markerLinePatternFile = getValueOrDefault (map_option Some (sym_markerLinePatternFile s)) None,
         markerWidth = getValueOrDefault (sym_markerWidth s) 10,
         markerHeight = getValueOrDefault (sym_markerHeight s) 10,
         markerDx = getValueOrDefault (sym_markerDx s) 0,
         markerDy = getValueOrDefault (sym_markerDy s) 0\<rparr>
      in case sym_markerOpacity s of
           Some opacity \<Rightarrow>
             result\<lparr>markerFillOpacity := markerFillOpacity result * opacity,
                    markerLineOpacity := markerLineOpacity result * opacity\<rparr>
         | None \<Rightarrow> result)"

definition translateLineAndFill :: "'g markerStyle \<Rightarrow> 'g strokeAndFill" where
  "translateLineAndFill s =
     (let result =
        \<lparr>lineColor = markerLineColor s,
         linePatternFile = markerLinePatternFile s,
         lineWidth = markerLineWidth s,
         lineOpacity = markerLineOpacity s,
         lineDasharray = None,
         lineCap = ''butt'',
         lineJoin = ''round'',
         polygonFill = markerFill s,
         polygonPatternFile = markerFillPatternFile s,
         polygonOpacity = markerFillOpacity s,
         lineGradientExtent = None,
         polygonGradientExtent = None\<rparr>
      in if lineWidth result = 0 then result\<lparr>lineOpacity := 0\<rparr> else result)"

text \<open>
  A property read \<open>style[key]\<close> on the object \<open>translate\<close> returned, as a JavaScript
  value: a key the object does not have reads \<open>undefined\<close>.
\<close>

datatype 'g jsval = Undefined | Null | Num real | Str string | NumArray "real list" | GradientObject 'g

definition paintVal :: "'g paint \<Rightarrow> 'g jsval" where
  "paintVal p = (case p of Color c \<Rightarrow> Str c | Gradient g \<Rightarrow> GradientObject g)"

definition fileVal :: "string option \<Rightarrow> 'g jsval" where
  "fileVal f = (case f of None \<Rightarrow> Null | Some path \<Rightarrow> Str path)"

definition styleProp :: "'g markerStyle \<Rightarrow> string \<Rightarrow> 'g jsval" where
  "styleProp s key =
     (if key = ''markerType'' then Str (markerType s)
      else if key = ''markerFill'' then paintVal (markerFill s)
      else if key = ''markerFillOpacity'' then Num (markerFillOpacity s)
      else if key = ''markerFillPatternFile'' then fileVal (markerFillPatternFile s)
      else if key = ''markerLineColor'' then paintVal (markerLineColor s)
      else if key = ''markerLineWidth'' then Num (markerLineWidth s)
      else if key = ''markerLineOpacity'' then Num (markerLineOpacity s)
      else if key = ''markerLineDasharray'' then NumArray (markerLineDasharray s)
      else if key = ''markerLinePatternFile'' then fileVal (markerLinePatternFile s)
      else if key = ''markerWidth'' then Num (markerWidth s)
      else if key = ''markerHeight'' then Num (markerHeight s)
      else if key = ''markerDx'' then Num (markerDx s)
      else if key = ''markerDy'' then Num (markerDy s)
      else Undefined)"

text \<open>
  \<open>String.prototype.toLowerCase\<close>, on the letters A to Z (no other character has a
  lower-case form among the letters of the marker types).
\<close>

definition toLowerCase :: "string \<Rightarrow> string" where
  "toLowerCase s =
     map (\<lambda>c. case map_of (zip ''ABCDEFGHIJKLMNOPQRSTUVWXYZ'' ''abcdefghijklmnopqrstuvwxyz'') c of
                Some l \<Rightarrow> l
              | None \<Rightarrow> c) s"

text \<open>
  The operator \<open>%\<close> on numbers: the remainder of the division truncated towards zero.
\<close>

definition truncToZero :: "real \<Rightarrow> int" where
  "truncToZero q = (if 0 \<le> q then \<lfloor>q\<rfloor> else \<lceil>q\<rceil>)"

definition jsRemainder :: "real \<Rightarrow> real \<Rightarrow> real" where
  "jsRemainder n d = n - d * of_int (truncToZero (n / d))"

text \<open>
  Modelled from the spec: \<open>round\<close> of \<open>core/util\<close> is not among the source files. The
  spec (section 4.4) gives the image dimensions as the ceiling of the sum that the
  source passes to \<open>round\<close>.
\<close>

definition round_util :: "real \<Rightarrow> int" where
  "round_util num = \<lceil>num\<rceil>"

section \<open>The symbolizer and the drawing surface\<close>

text \<open>
  What the symbolizer reads from its geometry, painter and layer, whose classes are not
  among the source files: the option \<open>shadowBlur\<close>, the points to render
  (\<open>_getRenderContainerPoints\<close>), the rotation of each instance (\<open>_getRotationAt\<close>,
  \<open>None\<close> when no rotation is defined), \<open>getPainter().isSpriting()\<close>, whether the layer's
  mask is this geometry, and the layer option \<open>cacheVectorOnCanvas\<close>.
\<close>

record geometry =
  shadowBlur :: real
  renderContainerPoints :: "Point list"
  rotationAt :: "nat \<Rightarrow> real option"
  isSpriting :: bool
  maskIsGeometry :: bool
  cacheVectorOnCanvas :: "bool option"

text \<open>
  The fields of a \<open>VectorMarkerSymbolizer\<close>; \<open>stamp\<close> is \<open>_stamp\<close> (\<open>None\<close> while it is
  \<open>undefined\<close>) and \<open>dynamic\<close> is \<open>_dynamic\<close>.
\<close>

record 'g symbolizer =
  symbol :: "'g symbol"
  geometry :: geometry
  dynamic :: bool
  style :: "'g markerStyle"
  strokeAndFill :: "'g strokeAndFill"
  padding :: "real \<times> real"
  stamp :: "string option"

text \<open>
  Modelled from the spec: \<open>_defineStyle\<close> belongs to the superclass
  (\<open>PointSymbolizer\<close>), which is not among the source files. By the spec (section 3) the
  two styles are computed once at construction and are immutable afterwards: the
  resolved object is the translated one.
\<close>

definition defineStyle :: "'a \<Rightarrow> 'a" where
  "defineStyle s = s"

text \<open>
  The constructor; \<open>hasFunctionDefinition(symbol)\<close> of \<open>core/mapbox\<close> is its third
  argument.
\<close>

definition constructor :: "'g symbol \<Rightarrow> geometry \<Rightarrow> bool \<Rightarrow> 'g symbolizer" where
  "constructor symb geom hasFunctionDefinition =
     (let style0 = defineStyle (translate symb);
          strokeAndFill0 = defineStyle (translateLineAndFill style0);
          lineWidth0 = lineWidth strokeAndFill0
      in \<lparr>symbol = symb, geometry = geom, dynamic = hasFunctionDefinition,
          style = style0, strokeAndFill = strokeAndFill0,
          padding = (if jsRemainder lineWidth0 2 = 0 then (2, 2) else (3, 3)),
          stamp = None\<rparr>)"

text \<open>
  The drawing surface. The primitives of \<open>core/Canvas\<close> are outside the source files; a
  call of one is recorded with its arguments, in the order of the calls. An image is an
  off-screen canvas: its size and the calls drawn into it.
\<close>

datatype 'g call =
    PrepareContext
  | PrepareCanvas "'g strokeAndFill"
  | Ellipse Point real real real real
  | Path "jsPoint list" real
  | Polygon "jsPoint list" real real
  | BezierCurveAndFill "jsPoint list" real real
  | Sector Point real "jsNumber \<times> jsNumber" real real
  | Image "'g canvas" real real
and 'g canvas = Canvas (width: int) (height: int) (content: "'g call list")

datatype transformOp = Translate real real | Rotate real

text \<open>
  The state of a 2D context that the source reads or writes: the line cap, the current
  transform (the operations applied to it), the stack of \<open>ctx.save()\<close>, and the calls
  issued. \<open>ctx.restore()\<close> pops the stack and reinstates the saved state; on an empty
  stack it does nothing.
\<close>

record 'g surface =
  ctxLineCap :: string
  transform :: "transformOp list"
  saved :: "(string \<times> transformOp list) list"
  calls :: "'g call list"

definition issue :: "'g surface \<Rightarrow> 'g call \<Rightarrow> 'g surface" where
  "issue ctx c = ctx\<lparr>calls := calls ctx @ [c]\<rparr>"

definition save :: "'g surface \<Rightarrow> 'g surface" where
  "save ctx = ctx\<lparr>saved := (ctxLineCap ctx, transform ctx) # saved ctx\<rparr>"

definition restore :: "'g surface \<Rightarrow> 'g surface" where
  "restore ctx =
     (case saved ctx of
        [] \<Rightarrow> ctx
      | (cap, t) # rest \<Rightarrow> ctx\<lparr>ctxLineCap := cap, transform := t, saved := rest\<rparr>)"

text \<open>
  The shared state of the surface that a draw call may change and has to put back: the
  line cap, the transform and the stack of saved states.
\<close>

definition surfaceState ::
  "'g surface \<Rightarrow> string \<times> transformOp list \<times> (string \<times> transformOp list) list" where
  "surfaceState ctx = (ctxLineCap ctx, transform ctx, saved ctx)"

text \<open>
  Modelled from the spec: \<open>_rotate\<close> belongs to the superclass. By the spec (section 4.6),
  if a rotation angle is defined for the instance, the surface is asked to rotate about
  the point before drawing, and its transform is restored afterwards (the \<open>ctx.restore()\<close>
  of the source): the state is saved, the origin moved to the point and rotated, and the
  point to draw at is the new origin. Without an angle nothing happens and the result is
  null.
\<close>

definition rotate_at :: "'g surface \<Rightarrow> Point \<Rightarrow> real option \<Rightarrow> 'g surface \<times> Point option" where
  "rotate_at ctx point rotation =
     (case rotation of
        None \<Rightarrow> (ctx, None)
      | Some r \<Rightarrow>
          ((save ctx)\<lparr>transform := transform ctx @ [Translate (px point) (py point), Rotate r]\<rparr>,
           Some (Point 0 0)))"

definition getRotationAt :: "'g symbolizer \<Rightarrow> nat \<Rightarrow> real option" where
  "getRotationAt self i = rotationAt (geometry self) i"

text \<open>
  Modelled from the spec: \<open>Canvas.createCanvas\<close> gives an isolated off-screen surface
  (section 4.4); its context starts in the default state.
\<close>

definition newContext :: "'g surface" where
  "newContext = \<lparr>ctxLineCap = ''butt'', transform = [], saved = [], calls = []\<rparr>"

text \<open>
  The result of a call that may throw: the state at the exit, and the error when the
  exit is a throw.
\<close>

datatype 'a outcome = Normal 'a | Throw jsError 'a

definition stateOf :: "'a outcome \<Rightarrow> 'a" where
  "stateOf r = (case r of Normal s \<Rightarrow> s | Throw e s \<Rightarrow> s)"

definition isNormal :: "'a outcome \<Rightarrow> bool" where
  "isNormal r = (case r of Normal s \<Rightarrow> True | Throw e s \<Rightarrow> False)"

definition errorOf :: "'a outcome \<Rightarrow> jsError option" where
  "errorOf r = (case r of Normal s \<Rightarrow> None | Throw e s \<Rightarrow> Some e)"

subsection \<open>Shape vertices\<close>

text \<open>
  \<open>_getVectorPoints\<close>. Every vertex is a \<open>new Point\<close> of two numbers. For \<open>pin\<close> the
  quotient \<open>hw / hh\<close> can be a division by zero, so the extent and the two vertices made
  from it are JavaScript numbers that may be NaN.
\<close>

definition getVectorPoints :: "string \<Rightarrow> real \<Rightarrow> real \<Rightarrow> jsPoint list" where
  "getVectorPoints markerType0 width0 height0 =
     (let hh = height0 / 2;
          hw = width0 / 2;
          left = 0;
          top = 0
      in if markerType0 = ''triangle'' then
           map finitePoint
             [Point left (top - hh), Point (left - hw) (top + hh), Point (left + hw) (top + hh)]
         else if markerType0 = ''cross'' then
           map finitePoint
             [Point (left - hw) top, Point (left + hw) top,
              Point left (top - hh), Point left (top + hh)]
         else if markerType0 = ''diamond'' then
           map finitePoint
             [Point (left - hw) top, Point left (top - hh),
              Point (left + hw) top, Point left (top + hh)]
         else if markerType0 = ''square'' then
           map finitePoint
             [Point (left - hw) (top + hh), Point (left + hw) (top + hh),
              Point (left + hw) (top - hh), Point (left - hw) (top - hh)]
         else if markerType0 = ''x'' then
           map finitePoint
             [Point (left - hw) (top + hh), Point (left + hw) (top - hh),
              Point (left + hw) (top + hh), Point (left - hw) (top - hh)]
         else if markerType0 = ''bar'' then
           map finitePoint
             [Point (left - hw) (top - height0), Point (left + hw) (top - height0),
              Point (left + hw) top, Point (left - hw) top]
         else if markerType0 = ''pin'' then
           (let extWidth = jsScale (jsAtan (jsDivide hw hh)) height0
            in [finitePoint (Point left top),
                JsPoint (jsSubFrom left extWidth) (Finite (top - height0)),
                JsPoint (jsAdd extWidth left) (Finite (top - height0)),
                finitePoint (Point left top)])
         else [])"

subsection \<open>Anchor, extents and stamp\<close>

definition getAnchor :: "'g symbolizer \<Rightarrow> real \<Rightarrow> real \<Rightarrow> Point" where
  "getAnchor self w h =
     (let lineWidth0 = lineWidth (strokeAndFill self);
          shadow = shadowBlur (geometry self);
          markerType0 = toLowerCase (markerType (style self))
      in if markerType0 = ''bar'' \<or> markerType0 = ''pie'' \<or> markerType0 = ''pin''
         then Point (w / 2) (h - snd (padding self) - lineWidth0 / 2 - shadow)
         else Point (w / 2) (h / 2))"

definition getDxDy :: "'g symbolizer \<Rightarrow> Point" where
  "getDxDy self = Point (markerDx (style self)) (markerDy (style self))"

definition getMarkerExtent :: "'g symbolizer \<Rightarrow> extent" where
  "getMarkerExtent self =
     (let dxdy = getDxDy self;
          markerType0 = toLowerCase (markerType (style self));
          width0 = markerWidth (style self);
          height0 = markerHeight (style self);
          result =
            (if markerType0 = ''bar'' \<or> markerType0 = ''pie'' \<or> markerType0 = ''pin''
             then newPointExtent (add dxdy (Point (- width0 / 2) (- height0)))
                                 (add dxdy (Point (width0 / 2) 0))
             else newPointExtent (add dxdy (Point (- width0 / 2) (- height0 / 2)))
                                 (add dxdy (Point (width0 / 2) (height0 / 2))))
      in if markerLineWidth (style self) \<noteq> 0
         then expand result (markerLineWidth (style self) / 2)
         else result)"

text \<open>
  \<open>_getGraidentExtent\<close>, for the single point \<open>_drawVectorMarker\<close> passes: the empty extent
  combined with the point, then moved by the marker extent.
\<close>

definition getGraidentExtent :: "'g symbolizer \<Rightarrow> Point \<Rightarrow> extent" where
  "getGraidentExtent self points =
     (let e = newPointExtent points points;
          m = getMarkerExtent self
      in \<lparr>xmin = xmin e + xmin m, ymin = ymin e + ymin m,
          xmax = xmax e + xmax m, ymax = ymax e + ymax m\<rparr>)"

text \<open>\<open>Array.prototype.join\<close> on strings.\<close>

fun join :: "string \<Rightarrow> string list \<Rightarrow> string" where
  "join sep [] = []"
| "join sep [a] = a"
| "join sep (a # b # bs) = a @ sep @ join sep (b # bs)"

text \<open>
  \<open>_stampSymbol\<close>. The conversion of a number to a string and \<open>getGradientStamp\<close> are
  parameters. In the joined array \<open>null\<close> gives the empty string, and the dash array,
  being an array, is truthy.
\<close>

definition stampParts ::
  "(real \<Rightarrow> string) \<Rightarrow> ('g \<Rightarrow> string) \<Rightarrow> 'g markerStyle \<Rightarrow> string list" where
  "stampParts numberToString getGradientStamp s =
     [markerType s,
      (case markerFill s of Gradient g \<Rightarrow> getGradientStamp g | Color c \<Rightarrow> c),
      numberToString (markerFillOpacity s),
      (case markerFillPatternFile s of None \<Rightarrow> [] | Some f \<Rightarrow> f),
      (case markerLineColor s of Gradient g \<Rightarrow> getGradientStamp g | Color c \<Rightarrow> c),
      numberToString (markerLineWidth s),
      numberToString (markerLineOpacity s),
      join '','' (map numberToString (markerLineDasharray s)),
      (case markerLinePatternFile s of None \<Rightarrow> [] | Some f \<Rightarrow> f),
      numberToString (markerWidth s),
      numberToString (markerHeight s)]"

definition stampSymbol ::
  "(real \<Rightarrow> string) \<Rightarrow> ('g \<Rightarrow> string) \<Rightarrow> 'g symbolizer \<Rightarrow> string \<times> 'g symbolizer" where
  "stampSymbol numberToString getGradientStamp self =
     (let fresh = join ''_'' (stampParts numberToString getGradientStamp (style self))
      in case stamp self of
           None \<Rightarrow> (fresh, self\<lparr>stamp := Some fresh\<rparr>)
         | Some cached \<Rightarrow>
             (if cached = [] then (fresh, self\<lparr>stamp := Some fresh\<rparr>) else (cached, self)))"

subsection \<open>Drawing one marker\<close>

text \<open>
  The block \<open>if (gradient) { ... }\<close> of \<open>_drawVectorMarker\<close>: the gradient extents are
  assigned to the shared object \<open>this.strokeAndFill\<close>, and the surface is prepared.
\<close>

definition prepareGradient ::
  "'g symbolizer \<Rightarrow> 'g surface \<Rightarrow> Point \<Rightarrow> 'g symbolizer \<times> 'g surface" where
  "prepareGradient self ctx point =
     (let sf = strokeAndFill self;
          gradient = (isGradient (lineColor sf) \<or> isGradient (polygonFill sf))
      in if gradient then
           (let sf1 = (if isGradient (lineColor sf)
                       then sf\<lparr>lineGradientExtent :=
                                 Some (expand (getGraidentExtent self point) (lineWidth sf))\<rparr>
                       else sf);
                sf2 = (if isGradient (polygonFill sf)
                       then sf1\<lparr>polygonGradientExtent := Some (getGraidentExtent self point)\<rparr>
                       else sf1)
            in (self\<lparr>strokeAndFill := sf2\<rparr>, issue ctx (PrepareCanvas sf2)))
         else (self, ctx))"

text \<open>\<open>Array.prototype.slice(begin, end)\<close>, for indices that are not negative.\<close>

definition slice :: "'a list \<Rightarrow> nat \<Rightarrow> nat \<Rightarrow> 'a list" where
  "slice xs b e = take (e - b) (drop b xs)"

text \<open>
  \<open>_drawVectorMarker\<close>. The loop \<open>vectorArray[j]._add(point)\<close> moves every vertex by the
  point. For \<open>pie\<close> the quotient \<open>width / 2 / height\<close> can be a division by zero, so the
  angle is a JavaScript number. The thrown error carries the lower-cased marker type of
  its message.
\<close>

definition drawVectorMarker ::
  "'g symbolizer \<Rightarrow> 'g surface \<Rightarrow> Point \<Rightarrow> ('g symbolizer \<times> 'g surface) outcome" where
  "drawVectorMarker self0 ctx0 point =
     (let style0 = style self0;
          markerType0 = toLowerCase (markerType style0);
          vectorArray = getVectorPoints markerType0 (markerWidth style0) (markerHeight style0);
          lineOpacity0 = lineOpacity (strokeAndFill self0);
          fillOpacity = polygonOpacity (strokeAndFill self0);
          prepared = prepareGradient self0 ctx0 point;
          self = fst prepared;
          ctx = snd prepared;
          width0 = markerWidth style0;
          height0 = markerHeight style0
      in if markerType0 = ''ellipse'' then
           Normal (self, issue ctx (Ellipse point (width0 / 2) (height0 / 2) lineOpacity0 fillOpacity))
         else if markerType0 = ''cross'' \<or> markerType0 = ''x'' then
           (let vectorArray1 = map (\<lambda>v. addPoint v point) vectorArray;
                ctx1 = issue ctx (Path (slice vectorArray1 0 2) lineOpacity0);
                ctx2 = issue ctx1 (Path (slice vectorArray1 2 4) lineOpacity0)
            in Normal (self, ctx2))
         else if markerType0 = ''diamond'' \<or> markerType0 = ''bar'' \<or> markerType0 = ''square''
                 \<or> markerType0 = ''triangle'' then
           (let point1 = (if markerType0 = ''bar''
                          then add point (Point 0 (- markerLineWidth style0 / 2)) else point);
                vectorArray1 = map (\<lambda>v. addPoint v point1) vectorArray
            in Normal (self, issue ctx (Polygon vectorArray1 lineOpacity0 fillOpacity)))
         else if markerType0 = ''pin'' then
           (let point1 = add point (Point 0 (- markerLineWidth style0 / 2));
                vectorArray1 = map (\<lambda>v. addPoint v point1) vectorArray;
                lineCap0 = ctxLineCap ctx;
                ctx1 = ctx\<lparr>ctxLineCap := ''round''\<rparr>;
                ctx2 = issue ctx1 (BezierCurveAndFill vectorArray1 lineOpacity0 fillOpacity);
                ctx3 = ctx2\<lparr>ctxLineCap := lineCap0\<rparr>
            in Normal (self, ctx3))
         else if markerType0 = ''pie'' then
           (let point1 = add point (Point 0 (- markerLineWidth style0 / 2));
                angle = jsScale (jsAtan (jsDivide (width0 / 2) height0)) (180 / pi);
                lineCap0 = ctxLineCap ctx;
                ctx1 = ctx\<lparr>ctxLineCap := ''round''\<rparr>;
                ctx2 = issue ctx1 (Sector point1 height0 (jsSubFrom 90 angle, jsAdd angle 90)
                                     lineOpacity0 fillOpacity);
                ctx3 = ctx2\<lparr>ctxLineCap := lineCap0\<rparr>
            in Normal (self, ctx3))
         else Throw (UnsupportedMarkerType markerType0) (self, ctx))"

subsection \<open>Drawing all instances\<close>

text \<open>
  The loop of \<open>_drawMarkers\<close>, \<open>for (let i = cookedPoints.length - 1; i >= 0; i--)\<close>: the
  counter is \<open>i + 1\<close>. A throw of \<open>_drawVectorMarker\<close> leaves the loop at once, with the
  state of that moment: the source has no \<open>try\<close>.
\<close>

fun drawMarkersLoop ::
  "Point list \<Rightarrow> nat \<Rightarrow> 'g symbolizer \<times> 'g surface \<Rightarrow> ('g symbolizer \<times> 'g surface) outcome" where
  "drawMarkersLoop cookedPoints 0 st = Normal st"
| "drawMarkersLoop cookedPoints (Suc i) st =
     (let self = fst st;
          point = cookedPoints ! i;
          rotated = rotate_at (snd st) point (getRotationAt self i);
          ctx = fst rotated;
          origin = snd rotated;
          point1 = (case origin of Some p \<Rightarrow> p | None \<Rightarrow> point)
      in case drawVectorMarker self ctx point1 of
           Throw e st1 \<Rightarrow> Throw e st1
         | Normal st1 \<Rightarrow>
             drawMarkersLoop cookedPoints i
               (fst st1, if origin \<noteq> None then restore (snd st1) else snd st1))"

definition drawMarkers ::
  "'g symbolizer \<Rightarrow> 'g surface \<Rightarrow> Point list \<Rightarrow> ('g symbolizer \<times> 'g surface) outcome" where
  "drawMarkers self ctx cookedPoints =
     (let sf = strokeAndFill self;
          gradient = (isGradient (lineColor sf) \<or> isGradient (polygonFill sf));
          ctx1 = (if \<not> gradient then issue ctx (PrepareCanvas sf) else ctx)
      in drawMarkersLoop cookedPoints (length cookedPoints) (self, ctx1))"

text \<open>
  \<open>_createMarkerImage\<close>: the result is the canvas, with the calls drawn into its context;
  on a throw, the canvas as it was allocated and drawn so far.
\<close>

definition createMarkerImage ::
  "'g symbolizer \<Rightarrow> ('g symbolizer \<times> 'g canvas) outcome" where
  "createMarkerImage self =
     (let lineWidth0 = lineWidth (strokeAndFill self);
          shadow = shadowBlur (geometry self);
          w = round_util (markerWidth (style self) + lineWidth0 + 2 * shadow + fst (padding self) * 2);
          h = round_util (markerHeight (style self) + lineWidth0 + 2 * shadow + snd (padding self) * 2);
          point = getAnchor self (of_int w) (of_int h);
          context0 = newContext;
          gradient = (isGradient (lineColor (strokeAndFill self))
                      \<or> isGradient (polygonFill (strokeAndFill self)));
          context1 = (if \<not> gradient then issue context0 (PrepareCanvas (strokeAndFill self))
                      else context0)
      in case drawVectorMarker self context1 point of
           Normal st \<Rightarrow> Normal (fst st, Canvas w h (calls (snd st)))
         | Throw e st \<Rightarrow> Throw e (fst st, Canvas w h (calls (snd st))))"

text \<open>
  Modelled from the spec: the resource pool is supplied by the caller; its contract
  (section 6) is \<open>getImage(stamp)\<close>, an image or absent, and \<open>addResource(key, image)\<close>,
  which registers the image under the stamp (the key is the stamp with the two
  dimensions).
\<close>

type_synonym 'g resources = "string \<Rightarrow> 'g canvas option"

definition getImage :: "'g resources \<Rightarrow> string \<Rightarrow> 'g canvas option" where
  "getImage resources url = resources url"

definition addResource :: "'g resources \<Rightarrow> string \<times> int \<times> int \<Rightarrow> 'g canvas \<Rightarrow> 'g resources" where
  "addResource resources key img = resources(fst key := Some img)"

text \<open>The loop of \<open>_drawMarkersWithCache\<close>; nothing in it throws.\<close>

fun drawImagesLoop ::
  "'g symbolizer \<Rightarrow> 'g canvas \<Rightarrow> Point \<Rightarrow> Point list \<Rightarrow> nat \<Rightarrow> 'g surface \<Rightarrow> 'g surface" where
  "drawImagesLoop self img anchor cookedPoints 0 ctx0 = ctx0"
| "drawImagesLoop self img anchor cookedPoints (Suc i) ctx0 =
     (let point = substract (cookedPoints ! i) anchor;
          rotated = rotate_at ctx0 point (getRotationAt self i);
          ctx = fst rotated;
          origin = snd rotated;
          point1 = (case origin of Some p \<Rightarrow> p | None \<Rightarrow> point);
          ctx1 = issue ctx (Image img (px point1) (py point1))
      in drawImagesLoop self img anchor cookedPoints i
           (if origin \<noteq> None then restore ctx1 else ctx1))"

text \<open>
  The state of a \<open>symbolize\<close> call: the symbolizer, the surface drawn to, and the
  resource pool.
\<close>

type_synonym 'g world = "'g symbolizer \<times> 'g surface \<times> 'g resources"

definition drawMarkersWithCache ::
  "(real \<Rightarrow> string) \<Rightarrow> ('g \<Rightarrow> string) \<Rightarrow> 'g symbolizer \<Rightarrow> 'g surface \<Rightarrow> Point list
     \<Rightarrow> 'g resources \<Rightarrow> 'g world outcome" where
  "drawMarkersWithCache numberToString getGradientStamp self0 ctx cookedPoints resources =
     (let stamped = stampSymbol numberToString getGradientStamp self0;
          stamp0 = fst stamped;
          self1 = snd stamped
      in case (case getImage resources stamp0 of
                 Some img \<Rightarrow> Normal (self1, img, resources)
               | None \<Rightarrow>
                   (case createMarkerImage self1 of
                      Throw e created \<Rightarrow> Throw e (fst created, snd created, resources)
                    | Normal created \<Rightarrow>
                        Normal (fst created, snd created,
                                addResource resources
                                  (stamp0, width (snd created), height (snd created))
                                  (snd created)))) of
           Throw e (self2, img, resources1) \<Rightarrow> Throw e (self2, ctx, resources1)
         | Normal (self2, img, resources1) \<Rightarrow>
             (let anchor = getAnchor self2 (of_int (width img)) (of_int (height img))
              in Normal (self2,
                         drawImagesLoop self2 img anchor cookedPoints (length cookedPoints) ctx,
                         resources1)))"

text \<open>
  \<open>symbolize\<close>. The three tests of the early exit read \<open>this.style\<close>, the object of
  \<open>translate\<close>. \<open>isArrayHasData\<close> of \<open>core/util\<close> holds for an array that is not empty.
  \<open>_prepareContext\<close> belongs to the superclass, which is not among the source files: the
  call is recorded on the surface as the preparation before the instances are drawn.
\<close>

definition symbolize ::
  "(real \<Rightarrow> string) \<Rightarrow> ('g \<Rightarrow> string) \<Rightarrow> 'g world \<Rightarrow> 'g world outcome" where
  "symbolize numberToString getGradientStamp world =
     (let self = fst world;
          ctx = fst (snd world);
          resources = snd (snd world);
          style0 = style self
      in if styleProp style0 ''markerWidth'' = Num 0 \<or> styleProp style0 ''markerHeight'' = Num 0
            \<or> (styleProp style0 ''polygonOpacity'' = Num 0 \<and> styleProp style0 ''lineOpacity'' = Num 0)
         then Normal world
         else
           (let cookedPoints = renderContainerPoints (geometry self)
            in if cookedPoints = [] then Normal world
               else
                 (let ctx1 = issue ctx PrepareContext
                  in if isSpriting (geometry self) \<or> maskIsGeometry (geometry self)
                        \<or> dynamic self \<or> cacheVectorOnCanvas (geometry self) = Some False
                     then (case drawMarkers self ctx1 cookedPoints of
                             Normal st \<Rightarrow> Normal (fst st, snd st, resources)
                           | Throw e st \<Rightarrow> Throw e (fst st, snd st, resources))
                     else drawMarkersWithCache numberToString getGradientStamp self ctx1
                            cookedPoints resources)))"

section \<open>Inputs of the examples\<close>

text \<open>
  The empty symbol definition \<open>{}\<close>, and a geometry with one point to render, at
  \<open>(5, 5)\<close>, no shadow, no rotation, and the layer's defaults.
\<close>

definition emptySymbol :: "'g symbol" where
  "emptySymbol =
     \<lparr>sym_markerType = None, sym_markerFill = None, sym_markerFillOpacity = None,
      sym_markerFillPatternFile = None, sym_markerLineColor = None, sym_markerLineWidth = None,
      sym_markerLineOpacity = None, sym_markerLineDasharray = None,
      sym_markerLinePatternFile = None, sym_markerWidth = None, sym_markerHeight = None,
      sym_markerDx = None, sym_markerDy = None, sym_markerOpacity = None\<rparr>"

definition onePoint :: geometry where
  "onePoint =
     \<lparr>shadowBlur = 0, renderContainerPoints = [Point 5 5], rotationAt = (\<lambda>i. None),
      isSpriting = False, maskIsGeometry = False, cacheVectorOnCanvas = None\<rparr>"

section \<open>Arrow geometry\<close>

lemma mag_unit:
  assumes "p \<noteq> Point 0 0"
  shows "mag (unit p) = 1"
proof -
  obtain a b where p: "p = Point a b" by (cases p)
  from assms p have ab: "a \<noteq> 0 \<or> b \<noteq> 0" by auto
  then have pos: "0 < a * a + b * b"
    by (metis add_pos_nonneg add_nonneg_pos not_real_square_gt_zero zero_le_square)
  have m: "mag p * mag p = a * a + b * b"
    using pos by (simp add: mag_def p)
  have "(a / mag p) * (a / mag p) + (b / mag p) * (b / mag p) = (a * a + b * b) / (mag p * mag p)"
    by (simp add: add_divide_distrib)
  also have "\<dots> = 1" using m pos ab by simp
  finally show ?thesis by (simp add: mag_def unit_def p)
qed

lemma multi_unit_mag:
  assumes "p \<noteq> Point 0 0"
  shows "multi (unit p) (mag p) = p"
proof -
  obtain a b where p: "p = Point a b" by (cases p)
  from assms p have ab: "a \<noteq> 0 \<or> b \<noteq> 0" by auto
  then have pos: "0 < a * a + b * b"
    by (metis add_pos_nonneg add_nonneg_pos not_real_square_gt_zero zero_le_square)
  with ab have "mag p \<noteq> 0" by (simp add: mag_def p)
  then show ?thesis by (simp add: multi_def unit_def p)
qed

lemma substract_eq0: "substract q p = Point 0 0 \<longleftrightarrow> p = q"
  by (cases p; cases q) (auto simp: substract_def)

lemma mag_perp: "mag (perp p) = mag p"
  by (simp add: mag_def perp_def add.commute)

lemma dot_perp: "dot p (perp p) = 0"
  by (simp add: dot_def perp_def)

lemma getArrowPoints_unfold:
  "getArrowPoints prePoint point lw (factor0, factor1) tolerance0 =
     (let tol = (case tolerance0 of None \<Rightarrow> 0 | Some t \<Rightarrow> t);
          u = unit (substract point prePoint);
          backTip = substract point (multi u (lw * factor1 + tol));
          halfWidth = lw * factor0 / 2 + tol
      in [add backTip (multi (perp u) halfWidth), point,
          substract backTip (multi (perp u) halfWidth),
          add backTip (multi (perp u) halfWidth)])"
  by (simp add: getArrowPoints_def Let_def add_def substract_def multi_def perp_def)

lemma mag_10: "mag (Point 10 0) = 10"
proof -
  have "sqrt (10 * 10) = \<bar>10::real\<bar>" by (rule real_sqrt_abs2)
  then show ?thesis by (simp add: mag_def)
qed

lemma classic_arrow:
  "getArrowPoints (Point 0 0) (Point 10 0) 3 (3, 4) tolerance0 =
     (let t = (case tolerance0 of None \<Rightarrow> 0 | Some t \<Rightarrow> t)
      in [Point (- 2 - t) (9 / 2 + t), Point 10 0, Point (- 2 - t) (- (9 / 2) - t),
          Point (- 2 - t) (9 / 2 + t)])"
  by (simp add: getArrowPoints_unfold Let_def unit_def substract_def multi_def add_def perp_def mag_10)

text \<open>
  C6. For \<open>prePoint \<noteq> point\<close>, \<open>_getArrowPoints\<close> returns the closed kite
  \<open>[wing0, tip, wing1, wing0]\<close>: with \<open>width = lw * factor0\<close>,
  \<open>height = lw * factor1 + tolerance\<close> and \<open>halfWidth = width / 2 + tolerance\<close>, the
  back-tip lies \<open>height\<close> back from the tip along the unit vector \<open>u\<close> from \<open>prePoint\<close> to
  the tip, and the wings are the back-tip plus and minus \<open>halfWidth\<close> times the
  perpendicular \<open>n\<close> of \<open>u\<close>; \<open>u\<close> and \<open>n\<close> have length 1 and are orthogonal, and \<open>u\<close> points
  from \<open>prePoint\<close> to the tip. An omitted tolerance counts as 0.
\<close>

theorem getArrowPoints_kite:
  assumes "prePoint \<noteq> point"
  shows "let tol = (case tolerance0 of None \<Rightarrow> 0 | Some t \<Rightarrow> t);
             width0 = lw * factor0;
             height0 = lw * factor1 + tol;
             halfWidth = width0 / 2 + tol;
             u = unit (substract point prePoint);
             n = perp u;
             backTip = substract point (multi u height0);
             wing0 = add backTip (multi n halfWidth);
             wing1 = substract backTip (multi n halfWidth)
         in getArrowPoints prePoint point lw (factor0, factor1) tolerance0
              = [wing0, point, wing1, wing0]
            \<and> mag u = 1 \<and> mag n = 1 \<and> dot u n = 0
            \<and> multi u (mag (substract point prePoint)) = substract point prePoint"
proof -
  have nz: "substract point prePoint \<noteq> Point 0 0"
    using assms by (simp add: substract_eq0)
  show ?thesis
    unfolding Let_def getArrowPoints_unfold
    by (simp add: mag_unit [OF nz] multi_unit_mag [OF nz] mag_perp dot_perp)
qed

text \<open>
  The example of the spec: \<open>prevPoint = (0, 0)\<close>, \<open>tipPoint = (10, 0)\<close>, \<open>lw = 3\<close>,
  \<open>arrowStyle = [3, 4]\<close>, \<open>tolerance = 0\<close>. The tip is \<open>(10, 0)\<close> and the wings are
  \<open>(-2, 4.5)\<close> and \<open>(-2, -4.5)\<close>.
\<close>

theorem getArrowPoints_kite_witness:
  "Point 0 0 \<noteq> Point 10 0 \<and>
   getArrowPoints (Point 0 0) (Point 10 0) 3 (3, 4) (Some 0)
     = [Point (- 2) (9 / 2), Point 10 0, Point (- 2) (- (9 / 2)), Point (- 2) (9 / 2)]"
  using getArrowPoints_kite [of "Point 0 0" "Point 10 0" "Some 0" 3 3 4]
  by (simp add: Let_def unit_def substract_def multi_def add_def perp_def mag_10)

section \<open>Arrow placement\<close>

lemma elemAt_nat: "k < length xs \<Longrightarrow> elemAt xs (int k) = Some (xs ! k)"
  by (simp add: elemAt_def)

lemma elemAt_first:
  assumes "2 \<le> length seg"
  shows "elemAt seg 1 = Some (seg ! 1)" and "elemAt seg 0 = Some (seg ! 0)"
  using assms by (auto simp: elemAt_def)

lemma elemAt_last:
  assumes "2 \<le> length seg"
  shows "elemAt seg (int (length seg) - 2) = Some (seg ! (length seg - 2))"
    and "elemAt seg (int (length seg) - 1) = Some (seg ! (length seg - 1))"
  using assms by (auto simp: elemAt_def nat_diff_distrib')

lemma elemAt_short:
  assumes "\<not> 2 \<le> length seg"
  shows "elemAt seg 1 = None" and "elemAt seg (int (length seg) - 2) = None"
  using assms by (auto simp: elemAt_def)

lemma arrowAt_None [simp]: "arrowAt None p lw sty tol = Inl TypeError"
  by (simp add: arrowAt_def)

lemma arrowAt_Some [simp]:
  "arrowAt (Some a) (Some b) lw sty tol = Inr (callGetArrowPoints a b lw sty tol)"
  by (simp add: arrowAt_def)

lemma pointLoop_valid:
  assumes "ll < length seg"
  shows "k \<le> ll \<Longrightarrow> pointLoop seg lw sty tol (int k) (int ll) arrows =
     Inr (arrows @ map (\<lambda>i. callGetArrowPoints (seg ! i) (seg ! Suc i) lw sty tol) [k..<ll])"
proof (induction "ll - k" arbitrary: k arrows)
  case 0
  then have "k = ll" by simp
  then show ?case by (subst pointLoop.simps) simp
next
  case (Suc d)
  then have lt: "k < ll" and d: "d = ll - Suc k" and le: "Suc k \<le> ll" by simp_all
  have e1: "elemAt seg (int k) = Some (seg ! k)"
    using lt assms by (simp add: elemAt_nat)
  have e2: "elemAt seg (int k + 1) = Some (seg ! Suc k)"
    using elemAt_nat [of "Suc k" seg] lt assms by (simp add: add.commute)
  have step: "pointLoop seg lw sty tol (int k) (int ll) arrows =
      pointLoop seg lw sty tol (int (Suc k)) (int ll)
        (arrows @ [callGetArrowPoints (seg ! k) (seg ! Suc k) lw sty tol])"
    using lt by (subst pointLoop.simps) (simp add: e1 e2 add.commute [of 1 "int k"])
  show ?case
    using Suc.hyps(1) [OF d le] lt by (simp add: step upt_conv_Cons)
qed

lemma pointLoop_none:
  assumes "ll \<le> 0"
  shows "pointLoop seg lw sty tol 0 ll arrows = Inr arrows"
  using assms by (subst pointLoop.simps) simp

lemma segmentArrows_firstlast:
  assumes "2 \<le> length seg"
  shows "segmentArrows (Some ''vertex-firstlast'') seg lw sty tol arrows =
     Inr (arrows @ [callGetArrowPoints (seg ! 1) (seg ! 0) lw sty tol,
                    callGetArrowPoints (seg ! (length seg - 2)) (seg ! (length seg - 1)) lw sty tol])"
  by (simp add: segmentArrows_def elemAt_first [OF assms] elemAt_last [OF assms])

lemma segmentArrows_first:
  assumes "2 \<le> length seg"
  shows "segmentArrows (Some ''vertex-first'') seg lw sty tol arrows =
     Inr (arrows @ [callGetArrowPoints (seg ! 1) (seg ! 0) lw sty tol])"
  by (simp add: segmentArrows_def elemAt_first [OF assms])

lemma segmentArrows_last:
  assumes "2 \<le> length seg"
  shows "segmentArrows (Some ''vertex-last'') seg lw sty tol arrows =
     Inr (arrows @ [callGetArrowPoints (seg ! (length seg - 2)) (seg ! (length seg - 1)) lw sty tol])"
  by (simp add: segmentArrows_def elemAt_last [OF assms])

lemma segmentArrows_short:
  assumes "\<not> 2 \<le> length seg"
  shows "segmentArrows (Some ''vertex-firstlast'') seg lw sty tol arrows = Inl TypeError"
    and "segmentArrows (Some ''vertex-first'') seg lw sty tol arrows = Inl TypeError"
    and "segmentArrows (Some ''vertex-last'') seg lw sty tol arrows = Inl TypeError"
  by (simp_all add: segmentArrows_def elemAt_short [OF assms])

lemma segmentArrows_point:
  "segmentArrows (Some ''point'') seg lw sty tol arrows =
     Inr (arrows @ map (\<lambda>i. callGetArrowPoints (seg ! i) (seg ! Suc i) lw sty tol)
                     [0..<length seg - 1])"
proof (cases "seg = []")
  case True
  then show ?thesis by (simp add: segmentArrows_def pointLoop_none)
next
  case False
  then have lt: "length seg - 1 < length seg" by simp
  have e: "int (length seg - 1) = int (length seg) - 1"
    using False by (simp add: of_nat_diff Suc_leI)
  have "pointLoop seg lw sty tol (int 0) (int (length seg - 1)) arrows =
     Inr (arrows @ map (\<lambda>i. callGetArrowPoints (seg ! i) (seg ! Suc i) lw sty tol)
                     [0..<length seg - 1])"
    by (rule pointLoop_valid [OF lt]) simp
  then have "pointLoop seg lw sty tol 0 (int (length seg) - 1) arrows =
     Inr (arrows @ map (\<lambda>i. callGetArrowPoints (seg ! i) (seg ! Suc i) lw sty tol)
                     [0..<length seg - 1])"
    by (simp only: e of_nat_0)
  then show ?thesis by (simp add: segmentArrows_def)
qed

lemma segmentsLoop_all:
  assumes ok: "\<And>seg arrows. P seg \<Longrightarrow>
             segmentArrows placement seg lw sty tol arrows = Inr (arrows @ f seg)"
    and bad: "\<And>seg arrows. \<not> P seg \<Longrightarrow>
             segmentArrows placement seg lw sty tol arrows = Inl TypeError"
  shows "i \<le> length segments \<Longrightarrow> segmentsLoop placement segments lw sty tol i arrows =
     (if list_all P (take i segments)
      then Inr (arrows @ concat (map f (rev (take i segments))))
      else Inl TypeError)"
proof (induction i arbitrary: arrows)
  case 0
  then show ?case by simp
next
  case (Suc i)
  then have lt: "i < length segments" by simp
  show ?case
  proof (cases "P (segments ! i)")
    case True
    show ?thesis
      using Suc.IH [of "arrows @ f (segments ! i)"] lt True
      by (simp add: ok [OF True] take_Suc_conv_app_nth)
  next
    case False
    show ?thesis
      using lt False by (simp add: bad [OF False] take_Suc_conv_app_nth)
  qed
qed

lemma pathSegments_nonempty: "2 \<le> pathLength points \<Longrightarrow> pathSegments points \<noteq> []"
  by (cases points) (auto simp: pathLength_def pathSegments_def)

lemma getArrows_all:
  assumes style: "getArrowStyle opts = Some sty"
    and len: "2 \<le> pathLength points"
    and ok: "\<And>seg arrows. P seg \<Longrightarrow>
             segmentArrows (optArrowPlacement opts) seg lw sty tol arrows = Inr (arrows @ f seg)"
    and bad: "\<And>seg arrows. \<not> P seg \<Longrightarrow>
             segmentArrows (optArrowPlacement opts) seg lw sty tol arrows = Inl TypeError"
  shows "getArrows opts points lw tol =
     (if list_all P (pathSegments points)
      then Inr (if concat (map f (rev (pathSegments points))) = [] then None
                else Some (concat (map f (rev (pathSegments points)))))
      else Inl TypeError)"
proof -
  let ?segs = "pathSegments points"
  have loop: "segmentsLoop (optArrowPlacement opts) ?segs lw sty tol (length ?segs) [] =
      (if list_all P ?segs then Inr (concat (map f (rev ?segs))) else Inl TypeError)"
    using segmentsLoop_all [of P "optArrowPlacement opts" lw sty tol f "length ?segs" ?segs "[]"]
      ok bad by simp
  show ?thesis
    using len by (simp add: getArrows_def style Let_def getArrowPlacement_def loop)
qed

lemma concat_nonempty:
  assumes "segs \<noteq> []" and "list_all P segs" and "\<And>seg. P seg \<Longrightarrow> f seg \<noteq> []"
  shows "concat (map f (rev segs)) \<noteq> []"
proof -
  obtain seg rest where sr: "segs = seg # rest" using assms(1) by (cases segs) auto
  then have "P seg" using assms(2) by simp
  then have "f seg \<noteq> []" by (rule assms(3))
  then show ?thesis by (simp add: sr)
qed

lemma getArrowStyle_placement [simp]:
  "getArrowStyle (opts\<lparr>optArrowPlacement := p\<rparr>) = getArrowStyle opts"
  by (simp add: getArrowStyle_def)

lemma getArrows_null:
  assumes "getArrowStyle opts = None \<or> pathLength points < 2"
  shows "getArrows opts points lw tol = Inr None"
  using assms by (auto simp add: getArrows_def split: option.splits)

text \<open>
  C4, as amended. \<open>_getArrows\<close> returns null when no arrow style is set or the path array
  has fewer than two elements. Otherwise the checks for \<open>vertex-first\<close> and \<open>vertex-last\<close>
  are independent and \<open>point\<close> is the else branch of the second. With \<open>vertex-firstlast\<close>,
  when every segment has at least two points, every segment (taken in reverse order)
  gives exactly two arrows, the first at its first vertex, oriented from the second vertex
  back to the first, the second at its last vertex, and the loop of \<open>point\<close> does not run;
  with \<open>vertex-first\<close> or \<open>vertex-last\<close> it gives that one arrow. With these three
  placements a segment with fewer than two points makes the call raise a TypeError. With
  \<open>point\<close> a segment gives one arrow for every pair of consecutive vertices, with its tip
  at the later one, that is one arrow at every vertex but the first, and a segment with
  fewer than two points gives none. Every arrow is the value of the call of
  \<open>_getArrowPoints\<close> at the two vertices.
\<close>

theorem getArrows_placements:
  "(getArrowStyle opts = None \<or> pathLength points < 2 \<longrightarrow> getArrows opts points lw tol = Inr None)
   \<and> (getArrowStyle opts = Some sty \<and> 2 \<le> pathLength points \<longrightarrow>
        getArrows (opts\<lparr>optArrowPlacement := Some ''vertex-firstlast''\<rparr>) points lw tol =
          (if list_all (\<lambda>seg. 2 \<le> length seg) (pathSegments points)
           then Inr (Some (concat (map (\<lambda>seg.
              [callGetArrowPoints (seg ! 1) (seg ! 0) lw sty tol,
               callGetArrowPoints (seg ! (length seg - 2)) (seg ! (length seg - 1)) lw sty tol])
              (rev (pathSegments points)))))
           else Inl TypeError)
      \<and> getArrows (opts\<lparr>optArrowPlacement := Some ''vertex-first''\<rparr>) points lw tol =
          (if list_all (\<lambda>seg. 2 \<le> length seg) (pathSegments points)
           then Inr (Some (concat (map (\<lambda>seg.
              [callGetArrowPoints (seg ! 1) (seg ! 0) lw sty tol])
              (rev (pathSegments points)))))
           else Inl TypeError)
      \<and> getArrows (opts\<lparr>optArrowPlacement := Some ''vertex-last''\<rparr>) points lw tol =
          (if list_all (\<lambda>seg. 2 \<le> length seg) (pathSegments points)
           then Inr (Some (concat (map (\<lambda>seg.
              [callGetArrowPoints (seg ! (length seg - 2)) (seg ! (length seg - 1)) lw sty tol])
              (rev (pathSegments points)))))
           else Inl TypeError)
      \<and> getArrows (opts\<lparr>optArrowPlacement := Some ''point''\<rparr>) points lw tol =
          Inr (if concat (map (\<lambda>seg.
                    map (\<lambda>i. callGetArrowPoints (seg ! i) (seg ! Suc i) lw sty tol)
                      [0..<length seg - 1])
                    (rev (pathSegments points))) = []
               then None
               else Some (concat (map (\<lambda>seg.
                    map (\<lambda>i. callGetArrowPoints (seg ! i) (seg ! Suc i) lw sty tol)
                      [0..<length seg - 1])
                    (rev (pathSegments points))))))"
proof (intro conjI impI)
  assume "getArrowStyle opts = None \<or> pathLength points < 2"
  then show "getArrows opts points lw tol = Inr None" by (rule getArrows_null)
next
  assume a: "getArrowStyle opts = Some sty \<and> 2 \<le> pathLength points"
  then have style: "\<And>p. getArrowStyle (opts\<lparr>optArrowPlacement := p\<rparr>) = Some sty"
    and len: "2 \<le> pathLength points" by simp_all
  have ne: "pathSegments points \<noteq> []" using len by (rule pathSegments_nonempty)
  let ?ok = "\<lambda>seg :: Point list. 2 \<le> length seg"
  let ?fl = "\<lambda>seg. [callGetArrowPoints (seg ! 1) (seg ! 0) lw sty tol,
               callGetArrowPoints (seg ! (length seg - 2)) (seg ! (length seg - 1)) lw sty tol]"
  let ?f = "\<lambda>seg. [callGetArrowPoints (seg ! 1) (seg ! 0) lw sty tol]"
  let ?l = "\<lambda>seg. [callGetArrowPoints (seg ! (length seg - 2)) (seg ! (length seg - 1)) lw sty tol]"
  let ?p = "\<lambda>seg. map (\<lambda>i. callGetArrowPoints (seg ! i) (seg ! Suc i) lw sty tol)
                      [0..<length seg - 1]"
  have "getArrows (opts\<lparr>optArrowPlacement := Some ''vertex-firstlast''\<rparr>) points lw tol =
     (if list_all ?ok (pathSegments points)
      then Inr (if concat (map ?fl (rev (pathSegments points))) = [] then None
                else Some (concat (map ?fl (rev (pathSegments points)))))
      else Inl TypeError)"
    by (rule getArrows_all [OF style len])
      (simp_all add: segmentArrows_firstlast segmentArrows_short)
  moreover have "list_all ?ok (pathSegments points) \<Longrightarrow>
      concat (map ?fl (rev (pathSegments points))) \<noteq> []"
    by (rule concat_nonempty [OF ne]) simp_all
  ultimately show "getArrows (opts\<lparr>optArrowPlacement := Some ''vertex-firstlast''\<rparr>) points lw tol =
     (if list_all ?ok (pathSegments points)
      then Inr (Some (concat (map ?fl (rev (pathSegments points)))))
      else Inl TypeError)"
    by simp
  have "getArrows (opts\<lparr>optArrowPlacement := Some ''vertex-first''\<rparr>) points lw tol =
     (if list_all ?ok (pathSegments points)
      then Inr (if concat (map ?f (rev (pathSegments points))) = [] then None
                else Some (concat (map ?f (rev (pathSegments points)))))
      else Inl TypeError)"
    by (rule getArrows_all [OF style len])
      (simp_all add: segmentArrows_first segmentArrows_short)
  moreover have "list_all ?ok (pathSegments points) \<Longrightarrow>
      concat (map ?f (rev (pathSegments points))) \<noteq> []"
    by (rule concat_nonempty [OF ne]) simp_all
  ultimately show "getArrows (opts\<lparr>optArrowPlacement := Some ''vertex-first''\<rparr>) points lw tol =
     (if list_all ?ok (pathSegments points)
      then Inr (Some (concat (map ?f (rev (pathSegments points)))))
      else Inl TypeError)"
    by simp
  have "getArrows (opts\<lparr>optArrowPlacement := Some ''vertex-last''\<rparr>) points lw tol =
     (if list_all ?ok (pathSegments points)
      then Inr (if concat (map ?l (rev (pathSegments points))) = [] then None
                else Some (concat (map ?l (rev (pathSegments points)))))
      else Inl TypeError)"
    by (rule getArrows_all [OF style len])
      (simp_all add: segmentArrows_last segmentArrows_short)
  moreover have "list_all ?ok (pathSegments points) \<Longrightarrow>
      concat (map ?l (rev (pathSegments points))) \<noteq> []"
    by (rule concat_nonempty [OF ne]) simp_all
  ultimately show "getArrows (opts\<lparr>optArrowPlacement := Some ''vertex-last''\<rparr>) points lw tol =
     (if list_all ?ok (pathSegments points)
      then Inr (Some (concat (map ?l (rev (pathSegments points)))))
      else Inl TypeError)"
    by simp
  have "getArrows (opts\<lparr>optArrowPlacement := Some ''point''\<rparr>) points lw tol =
     (if list_all (\<lambda>seg. True) (pathSegments points)
      then Inr (if concat (map ?p (rev (pathSegments points))) = [] then None
                else Some (concat (map ?p (rev (pathSegments points)))))
      else Inl TypeError)"
    by (rule getArrows_all [OF style len]) (simp_all add: segmentArrows_point)
  then show "getArrows (opts\<lparr>optArrowPlacement := Some ''point''\<rparr>) points lw tol =
     Inr (if concat (map ?p (rev (pathSegments points))) = [] then None
          else Some (concat (map ?p (rev (pathSegments points)))))"
    by (simp add: list_all_iff)
qed

lemma mag_minus_10: "mag (Point (- 10) 0) = 10"
proof -
  have "sqrt (10 * 10) = \<bar>10::real\<bar>" by (rule real_sqrt_abs2)
  then show ?thesis by (simp add: mag_def)
qed

lemma classic_arrow_back:
  "getArrowPoints (Point 10 0) (Point 0 0) 3 (3, 4) None =
     [Point 12 (- (9 / 2)), Point 0 0, Point 12 (9 / 2), Point 12 (- (9 / 2))]"
  by (simp add: getArrowPoints_unfold Let_def unit_def substract_def multi_def add_def perp_def
      mag_minus_10)

lemma classic_style:
  "getArrowStyle \<lparr>optArrowStyle = Some (StyleName ''classic''), optArrowPlacement = p\<rparr>
     = Some (Factors (3, 4))"
  by (simp add: getArrowStyle_def arrowStyles_def)

text \<open>
  The line of the spec's scenario, \<open>arrowStyle = 'classic'\<close>, path \<open>[(0,0), (10,0)]\<close>,
  \<open>lineWidth = 3\<close>, with the placement \<open>vertex-firstlast\<close>: two arrows, the first with its
  tip at \<open>(0, 0)\<close>, the second with its tip at \<open>(10, 0)\<close>. With the unknown style name
  \<open>fancy\<close> the result is null.
\<close>

theorem getArrows_placements_witness:
  "getArrowStyle \<lparr>optArrowStyle = Some (StyleName ''fancy''), optArrowPlacement = Some ''vertex-last''\<rparr>
     = None
   \<and> getArrows \<lparr>optArrowStyle = Some (StyleName ''fancy''), optArrowPlacement = Some ''vertex-last''\<rparr>
        (Flat [Point 0 0, Point 10 0]) 3 None = Inr None
   \<and> getArrowStyle \<lparr>optArrowStyle = Some (StyleName ''classic''), optArrowPlacement = None\<rparr>
        = Some (Factors (3, 4))
   \<and> 2 \<le> pathLength (Flat [Point 0 0, Point 10 0])
   \<and> getArrows \<lparr>optArrowStyle = Some (StyleName ''classic''),
                 optArrowPlacement = Some ''vertex-firstlast''\<rparr>
         (Flat [Point 0 0, Point 10 0]) 3 None =
       Inr (Some [map finitePoint
                    [Point 12 (- (9 / 2)), Point 0 0, Point 12 (9 / 2), Point 12 (- (9 / 2))],
                  map finitePoint
                    [Point (- 2) (9 / 2), Point 10 0, Point (- 2) (- (9 / 2)), Point (- 2) (9 / 2)]])"
proof -
  have none: "getArrowStyle \<lparr>optArrowStyle = Some (StyleName ''fancy''),
      optArrowPlacement = Some ''vertex-last''\<rparr> = None"
    by (simp add: getArrowStyle_def arrowStyles_def objectPrototypeKeys_def)
  have len: "2 \<le> pathLength (Flat [Point 0 0, Point 10 0])"
    by (simp add: pathLength_def)
  have null: "getArrows \<lparr>optArrowStyle = Some (StyleName ''fancy''),
      optArrowPlacement = Some ''vertex-last''\<rparr> (Flat [Point 0 0, Point 10 0]) 3 None = Inr None"
    using getArrows_placements [of "\<lparr>optArrowStyle = Some (StyleName ''fancy''),
      optArrowPlacement = Some ''vertex-last''\<rparr>" "Flat [Point 0 0, Point 10 0]" 3 None] none
    by simp
  have two: "getArrows \<lparr>optArrowStyle = Some (StyleName ''classic''),
                 optArrowPlacement = Some ''vertex-firstlast''\<rparr>
         (Flat [Point 0 0, Point 10 0]) 3 None =
       Inr (Some [map finitePoint
                    [Point 12 (- (9 / 2)), Point 0 0, Point 12 (9 / 2), Point 12 (- (9 / 2))],
                  map finitePoint
                    [Point (- 2) (9 / 2), Point 10 0, Point (- 2) (- (9 / 2)), Point (- 2) (9 / 2)]])"
    using getArrows_placements [of "\<lparr>optArrowStyle = Some (StyleName ''classic''),
        optArrowPlacement = None\<rparr>" "Flat [Point 0 0, Point 10 0]" 3 None "Factors (3, 4)"]
      len classic_style [of None]
    by (simp add: pathSegments_def callGetArrowPoints_def classic_arrow classic_arrow_back)
  from none null classic_style [of None] len two show ?thesis by blast
qed

text \<open>
  C4, the claim as stated fails. For the \<open>point\<close> placement: the path \<open>[(0,0), (10,0)]\<close> has
  no internal vertex, and the \<open>point\<close> branch gives one arrow, with its tip at the last
  vertex \<open>(10, 0)\<close>. For \<open>vertex-firstlast\<close>: in the split path \<open>[[(0,0), (10,0)], []]\<close> the
  first segment has two points and contributes nothing, because the call raises a
  TypeError at the empty segment.
\<close>

theorem getArrows_point_counterexample:
  "getArrows \<lparr>optArrowStyle = Some (StyleName ''classic''), optArrowPlacement = Some ''point''\<rparr>
      (Flat [Point 0 0, Point 10 0]) 3 None =
     Inr (Some [map finitePoint
                  [Point (- 2) (9 / 2), Point 10 0, Point (- 2) (- (9 / 2)), Point (- 2) (9 / 2)]])
   \<and> butlast (tl [Point 0 0, Point 10 0]) = []
   \<and> getArrows \<lparr>optArrowStyle = Some (StyleName ''classic''),
                 optArrowPlacement = Some ''vertex-firstlast''\<rparr>
        (Splitted [[Point 0 0, Point 10 0], []]) 3 None = Inl TypeError"
proof -
  have "getArrows \<lparr>optArrowStyle = Some (StyleName ''classic''), optArrowPlacement = Some ''point''\<rparr>
      (Flat [Point 0 0, Point 10 0]) 3 None =
     (if list_all (\<lambda>seg. True) (pathSegments (Flat [Point 0 0, Point 10 0]))
      then Inr (if concat (map (\<lambda>seg.
                    map (\<lambda>i. callGetArrowPoints (seg ! i) (seg ! Suc i) 3 (Factors (3, 4)) None)
                      [0..<length seg - 1])
                    (rev (pathSegments (Flat [Point 0 0, Point 10 0])))) = [] then None
                else Some (concat (map (\<lambda>seg.
                    map (\<lambda>i. callGetArrowPoints (seg ! i) (seg ! Suc i) 3 (Factors (3, 4)) None)
                      [0..<length seg - 1])
                    (rev (pathSegments (Flat [Point 0 0, Point 10 0]))))))
      else Inl TypeError)"
    by (rule getArrows_all [OF classic_style])
      (simp_all add: pathLength_def segmentArrows_point)
  then have point: "getArrows \<lparr>optArrowStyle = Some (StyleName ''classic''),
      optArrowPlacement = Some ''point''\<rparr> (Flat [Point 0 0, Point 10 0]) 3 None =
     Inr (Some [map finitePoint
                  [Point (- 2) (9 / 2), Point 10 0, Point (- 2) (- (9 / 2)), Point (- 2) (9 / 2)]])"
    by (simp add: pathSegments_def callGetArrowPoints_def classic_arrow)
  have "getArrows \<lparr>optArrowStyle = Some (StyleName ''classic''),
                 optArrowPlacement = Some ''vertex-firstlast''\<rparr>
        (Splitted [[Point 0 0, Point 10 0], []]) 3 None =
     (if list_all (\<lambda>seg. 2 \<le> length seg) (pathSegments (Splitted [[Point 0 0, Point 10 0], []]))
      then Inr (if concat (map (\<lambda>seg.
              [callGetArrowPoints (seg ! 1) (seg ! 0) 3 (Factors (3, 4)) None,
               callGetArrowPoints (seg ! (length seg - 2)) (seg ! (length seg - 1)) 3
                 (Factors (3, 4)) None])
              (rev (pathSegments (Splitted [[Point 0 0, Point 10 0], []])))) = [] then None
                else Some (concat (map (\<lambda>seg.
              [callGetArrowPoints (seg ! 1) (seg ! 0) 3 (Factors (3, 4)) None,
               callGetArrowPoints (seg ! (length seg - 2)) (seg ! (length seg - 1)) 3
                 (Factors (3, 4)) None])
              (rev (pathSegments (Splitted [[Point 0 0, Point 10 0], []]))))))
      else Inl TypeError)"
    by (rule getArrows_all [OF classic_style])
      (simp_all add: pathLength_def segmentArrows_firstlast segmentArrows_short)
  then have split: "getArrows \<lparr>optArrowStyle = Some (StyleName ''classic''),
                 optArrowPlacement = Some ''vertex-firstlast''\<rparr>
        (Splitted [[Point 0 0, Point 10 0], []]) 3 None = Inl TypeError"
    by (simp add: pathSegments_def)
  from point split show ?thesis by simp
qed

section \<open>The draw dispatch and the surface state\<close>

lemma drawVectorMarker_throw:
  assumes "toLowerCase (markerType (style self)) \<notin>
     {''ellipse'', ''cross'', ''x'', ''diamond'', ''square'', ''bar'', ''triangle'', ''pin'', ''pie''}"
  shows "drawVectorMarker self ctx point =
     Throw (UnsupportedMarkerType (toLowerCase (markerType (style self)))) (prepareGradient self ctx point)"
  using assms by (simp add: drawVectorMarker_def Let_def)

lemma drawVectorMarker_normal:
  assumes "toLowerCase (markerType (style self)) \<in>
     {''ellipse'', ''cross'', ''x'', ''diamond'', ''square'', ''bar'', ''triangle'', ''pin'', ''pie''}"
  shows "isNormal (drawVectorMarker self ctx point)"
  using assms by (auto simp add: drawVectorMarker_def Let_def isNormal_def)

lemma surfaceState_issue [simp]: "surfaceState (issue ctx c) = surfaceState ctx"
  by (simp add: surfaceState_def issue_def)

lemma surfaceState_prepareGradient [simp]:
  "surfaceState (snd (prepareGradient self ctx point)) = surfaceState ctx"
  by (simp add: prepareGradient_def Let_def)

lemma surfaceState_lineCap_scope:
  "surfaceState ((issue (ctx\<lparr>ctxLineCap := cap\<rparr>) c)\<lparr>ctxLineCap := ctxLineCap ctx\<rparr>) = surfaceState ctx"
  by (simp add: surfaceState_def issue_def)

lemma surfaceState_drawVectorMarker:
  "surfaceState (snd (stateOf (drawVectorMarker self ctx point))) = surfaceState ctx"
proof -
  have cap: "ctxLineCap (snd (prepareGradient self ctx point)) = ctxLineCap ctx"
    using surfaceState_prepareGradient [of self ctx point] by (simp add: surfaceState_def)
  show ?thesis
    using surfaceState_lineCap_scope [of "snd (prepareGradient self ctx point)"]
    by (simp add: drawVectorMarker_def Let_def stateOf_def)
qed

lemma surfaceState_restore_rotate_at:
  assumes "surfaceState c2 = surfaceState (fst (rotate_at ctx p (Some r)))"
  shows "surfaceState (restore c2) = surfaceState ctx"
  using assms by (simp add: surfaceState_def rotate_at_def save_def restore_def)

lemma rotate_at_None [simp]: "rotate_at ctx p None = (ctx, None)"
  by (simp add: rotate_at_def)

lemma rotate_at_Some_snd [simp]: "snd (rotate_at ctx p (Some r)) = Some (Point 0 0)"
  by (simp add: rotate_at_def)

lemma drawMarkersLoop_restores:
  "drawMarkersLoop pts i st = Normal st' \<Longrightarrow> surfaceState (snd st') = surfaceState (snd st)"
proof (induction i arbitrary: st)
  case 0
  then show ?case by simp
next
  case (Suc i)
  let ?rot = "getRotationAt (fst st) i"
  show ?case
  proof (cases ?rot)
    case None
    from Suc.prems None obtain st1 where
      dvm: "drawVectorMarker (fst st) (snd st) (pts ! i) = Normal st1" and
      rest: "drawMarkersLoop pts i (fst st1, snd st1) = Normal st'"
      by (auto simp: Let_def split: outcome.splits)
    have "surfaceState (snd st1) = surfaceState (snd st)"
      using surfaceState_drawVectorMarker [of "fst st" "snd st" "pts ! i"] dvm
      by (simp add: stateOf_def)
    with Suc.IH [OF rest] show ?thesis by simp
  next
    case (Some r)
    let ?ctx1 = "fst (rotate_at (snd st) (pts ! i) (Some r))"
    from Suc.prems Some obtain st1 where
      dvm: "drawVectorMarker (fst st) ?ctx1 (Point 0 0) = Normal st1" and
      rest: "drawMarkersLoop pts i (fst st1, restore (snd st1)) = Normal st'"
      by (auto simp: Let_def split: outcome.splits)
    have "surfaceState (snd st1) = surfaceState ?ctx1"
      using surfaceState_drawVectorMarker [of "fst st" ?ctx1 "Point 0 0"] dvm
      by (simp add: stateOf_def)
    then have "surfaceState (restore (snd st1)) = surfaceState (snd st)"
      by (rule surfaceState_restore_rotate_at)
    with Suc.IH [OF rest] show ?thesis by simp
  qed
qed

lemma drawMarkers_restores:
  assumes "drawMarkers self ctx pts = Normal st'"
  shows "surfaceState (snd st') = surfaceState ctx"
proof -
  let ?ctx1 = "if \<not> (isGradient (lineColor (strokeAndFill self)) \<or> isGradient (polygonFill (strokeAndFill self)))
               then issue ctx (PrepareCanvas (strokeAndFill self)) else ctx"
  from assms have "drawMarkersLoop pts (length pts) (self, ?ctx1) = Normal st'"
    by (simp add: drawMarkers_def Let_def)
  from drawMarkersLoop_restores [OF this] show ?thesis by simp
qed

lemma drawImagesLoop_restores:
  "surfaceState (drawImagesLoop self img anchor pts i ctx) = surfaceState ctx"
proof (induction i arbitrary: ctx)
  case 0
  then show ?case by simp
next
  case (Suc i)
  show ?case
  proof (cases "getRotationAt self i")
    case None
    then show ?thesis using Suc.IH by (simp add: Let_def)
  next
    case (Some r)
    let ?p = "substract (pts ! i) anchor"
    let ?c1 = "issue (fst (rotate_at ctx ?p (Some r))) (Image img 0 0)"
    have "surfaceState (restore ?c1) = surfaceState ctx"
      by (rule surfaceState_restore_rotate_at) simp
    then show ?thesis using Suc.IH Some by (simp add: Let_def)
  qed
qed

lemma drawMarkersWithCache_restores:
  "surfaceState (fst (snd (stateOf (drawMarkersWithCache ns gs self ctx pts res)))) = surfaceState ctx"
  by (simp add: drawMarkersWithCache_def Let_def stateOf_def drawImagesLoop_restores
      split: outcome.splits option.splits prod.splits)

lemma drawMarkersWithCache_throw_resources:
  "\<not> isNormal (drawMarkersWithCache ns gs self ctx pts res) \<Longrightarrow>
     snd (snd (stateOf (drawMarkersWithCache ns gs self ctx pts res))) = res"
  by (auto simp add: drawMarkersWithCache_def Let_def stateOf_def isNormal_def
      split: outcome.splits option.splits prod.splits)

lemma symbolize_throw_resources:
  "\<not> isNormal (symbolize ns gs (self, ctx, res)) \<Longrightarrow>
     snd (snd (stateOf (symbolize ns gs (self, ctx, res)))) = res"
  using drawMarkersWithCache_throw_resources [of ns gs self "issue ctx PrepareContext"
      "renderContainerPoints (geometry self)" res]
  by (auto simp add: symbolize_def Let_def stateOf_def isNormal_def split: outcome.splits if_splits)

lemma toLowerCase_lower [simp]:
  "toLowerCase ''star'' = ''star''" "toLowerCase ''ellipse'' = ''ellipse''"
  "toLowerCase ''bar'' = ''bar''" "toLowerCase ''BAR'' = ''bar''"
  by (simp_all add: toLowerCase_def)

lemma constructor_sel [simp]:
  "style (constructor symb geom d) = translate symb"
  "strokeAndFill (constructor symb geom d) = translateLineAndFill (translate symb)"
  "geometry (constructor symb geom d) = geom"
  "dynamic (constructor symb geom d) = d"
  "stamp (constructor symb geom d) = None"
  "symbol (constructor symb geom d) = symb"
  by (simp_all add: constructor_def Let_def defineStyle_def)

lemma translate_emptySymbol:
  "translate (emptySymbol\<lparr>sym_markerType := t\<rparr>) =
     \<lparr>markerType = getValueOrDefault t ''ellipse'', markerFill = Color ''#00f'',
      markerFillOpacity = 1, markerFillPatternFile = None, markerLineColor = Color ''#000'',
      markerLineWidth = 1, markerLineOpacity = 1, markerLineDasharray = [],
      markerLinePatternFile = None, markerWidth = 10, markerHeight = 10,
      markerDx = 0, markerDy = 0\<rparr>"
  by (simp add: translate_def emptySymbol_def getValueOrDefault_def)

text \<open>
  C5, the claim as stated fails: a symbolizer of the unsupported marker type \<open>star\<close>, one
  instance at \<open>(5, 5)\<close> with a rotation defined. \<open>_drawMarkers\<close> saves and rotates the
  surface, \<open>_drawVectorMarker\<close> throws, and \<open>ctx.restore()\<close> is not reached: at the exit
  the surface is still rotated and the saved state is still on the stack, while before
  the call the transform and the stack were empty.
\<close>

theorem drawMarkers_throw_counterexample:
  "\<not> isNormal (drawMarkers
        (constructor ((emptySymbol :: unit symbol)\<lparr>sym_markerType := Some ''star''\<rparr>)
           (onePoint\<lparr>rotationAt := (\<lambda>i. Some 1)\<rparr>) False)
        newContext [Point 5 5])
   \<and> transform (snd (stateOf (drawMarkers
        (constructor ((emptySymbol :: unit symbol)\<lparr>sym_markerType := Some ''star''\<rparr>)
           (onePoint\<lparr>rotationAt := (\<lambda>i. Some 1)\<rparr>) False)
        newContext [Point 5 5]))) = [Translate 5 5, Rotate 1]
   \<and> saved (snd (stateOf (drawMarkers
        (constructor ((emptySymbol :: unit symbol)\<lparr>sym_markerType := Some ''star''\<rparr>)
           (onePoint\<lparr>rotationAt := (\<lambda>i. Some 1)\<rparr>) False)
        newContext [Point 5 5]))) = [(''butt'', [])]
   \<and> transform (newContext :: unit surface) = []
   \<and> saved (newContext :: unit surface) = []"
  by (simp add: drawMarkers_def Let_def drawVectorMarker_throw translate_emptySymbol
      getValueOrDefault_def getRotationAt_def onePoint_def rotate_at_def save_def
      prepareGradient_def translateLineAndFill_def isGradient_def issue_def newContext_def
      stateOf_def isNormal_def)

text \<open>
  C5, as amended. When \<open>_drawMarkers\<close> returns, the line cap, the transform and the stack
  of saved states are what they were before the call: every rotation scope was closed.
  \<open>_drawMarkersWithCache\<close> leaves them as they were on every exit (its loop cannot throw).
  \<open>_drawVectorMarker\<close> leaves them as they were on every exit, the throw for an
  unsupported marker type included: the line cap set to \<open>round\<close> for \<open>pin\<close> and \<open>pie\<close> is
  put back, and the throwing branch does not touch it.
\<close>

theorem drawMarkers_restores_on_return:
  "(isNormal (drawMarkers self ctx pts) \<longrightarrow>
      surfaceState (snd (stateOf (drawMarkers self ctx pts))) = surfaceState ctx)
   \<and> surfaceState (fst (snd (stateOf (drawMarkersWithCache ns gs self ctx pts res)))) = surfaceState ctx
   \<and> surfaceState (snd (stateOf (drawVectorMarker self ctx point))) = surfaceState ctx"
proof (intro conjI impI)
  assume "isNormal (drawMarkers self ctx pts)"
  then obtain st' where n: "drawMarkers self ctx pts = Normal st'"
    by (cases "drawMarkers self ctx pts") (simp_all add: isNormal_def)
  from drawMarkers_restores [OF n] show
    "surfaceState (snd (stateOf (drawMarkers self ctx pts))) = surfaceState ctx"
    by (simp add: n stateOf_def)
qed (rule drawMarkersWithCache_restores, rule surfaceState_drawVectorMarker)

text \<open>
  An \<open>ellipse\<close> marker, one instance at \<open>(5, 5)\<close> with a rotation defined, drawn live on
  a surface with the line cap \<open>square\<close>: the call returns and the surface state is as
  before.
\<close>

theorem drawMarkers_restores_on_return_witness:
  "isNormal (drawMarkers
      (constructor (emptySymbol :: unit symbol) (onePoint\<lparr>rotationAt := (\<lambda>i. Some 1)\<rparr>) False)
      (newContext\<lparr>ctxLineCap := ''square''\<rparr>) [Point 5 5])
   \<and> surfaceState (snd (stateOf (drawMarkers
      (constructor (emptySymbol :: unit symbol) (onePoint\<lparr>rotationAt := (\<lambda>i. Some 1)\<rparr>) False)
      (newContext\<lparr>ctxLineCap := ''square''\<rparr>) [Point 5 5]))) = (''square'', [], [])"
proof -
  let ?self = "constructor (emptySymbol :: unit symbol) (onePoint\<lparr>rotationAt := (\<lambda>i. Some 1)\<rparr>) False"
  let ?ctx = "(newContext :: unit surface)\<lparr>ctxLineCap := ''square''\<rparr>"
  have n: "isNormal (drawMarkers ?self ?ctx [Point 5 5])"
    using translate_emptySymbol [of None, where ?'a = unit]
    by (simp add: drawMarkers_def Let_def emptySymbol_def translate_def getValueOrDefault_def
        getRotationAt_def onePoint_def drawVectorMarker_def isNormal_def)
  have s: "surfaceState ?ctx = (''square'', [], [])"
    by (simp add: surfaceState_def newContext_def)
  from drawMarkers_restores_on_return [of ?self ?ctx "[Point 5 5]"] n s
  show ?thesis by simp
qed

section \<open>Shape vertices\<close>









section \<open>Styles, anchor and image size\<close>

text \<open>
  C8. Resolving the style from the empty symbol definition gives \<open>markerWidth = 10\<close> and
  \<open>markerHeight = 10\<close>, and the stroke-and-fill style derived from it has
  \<open>lineOpacity = 1\<close>, \<open>polygonOpacity = 1\<close>, \<open>lineColor = '#000'\<close> and
  \<open>polygonFill = '#00f'\<close>. For every style, and so for the style of every symbolizer, the
  derived line width is the marker line width, and the derived line opacity is 0 when
  that width is 0 and the marker line opacity otherwise.
\<close>

theorem translate_defaults:
  "lineOpacity (translateLineAndFill (translate emptySymbol)) = 1
   \<and> polygonOpacity (translateLineAndFill (translate emptySymbol)) = 1
   \<and> lineColor (translateLineAndFill (translate emptySymbol)) = Color ''#000''
   \<and> polygonFill (translateLineAndFill (translate emptySymbol)) = Color ''#00f''
   \<and> markerWidth (translate emptySymbol) = 10
   \<and> markerHeight (translate emptySymbol) = 10
   \<and> lineWidth (translateLineAndFill s) = markerLineWidth s
   \<and> lineOpacity (translateLineAndFill s) = (if markerLineWidth s = 0 then 0 else markerLineOpacity s)
   \<and> lineOpacity (strokeAndFill (constructor symb geom dyn)) =
       (if lineWidth (strokeAndFill (constructor symb geom dyn)) = 0 then 0
        else markerLineOpacity (style (constructor symb geom dyn)))"
  by (simp add: translate_def translateLineAndFill_def emptySymbol_def getValueOrDefault_def Let_def)

text \<open>
  C7. For every image size \<open>(w, h)\<close> the anchor is
  \<open>(w / 2, h - padding[1] - lineWidth / 2 - shadowBlur)\<close> when the marker kind (the
  lower-cased marker type) is bar, pie or pin, and \<open>(w / 2, h / 2)\<close> for every other kind.
\<close>

theorem getAnchor_formula:
  "getAnchor self w h =
     (if toLowerCase (markerType (style self)) \<in> {''bar'', ''pie'', ''pin''}
      then Point (w / 2) (h - snd (padding self) - lineWidth (strokeAndFill self) / 2
                          - shadowBlur (geometry self))
      else Point (w / 2) (h / 2))"
  by (simp add: getAnchor_def Let_def)

lemma jsRemainder_two:
  "jsRemainder x 2 = 0 \<longleftrightarrow> (\<exists>k::int. x = of_int k \<and> even k)"
proof
  assume "jsRemainder x 2 = 0"
  then have "x = of_int (2 * truncToZero (x / 2))"
    by (simp add: jsRemainder_def)
  then show "\<exists>k::int. x = of_int k \<and> even k"
    by (intro exI [of _ "2 * truncToZero (x / 2)"]) simp
next
  assume "\<exists>k::int. x = of_int k \<and> even k"
  then obtain m :: int where x: "x = of_int (2 * m)" by (auto elim: evenE)
  have "x / 2 = of_int m" by (simp add: x)
  then have "truncToZero (x / 2) = m" by (simp add: truncToZero_def)
  then show "jsRemainder x 2 = 0" by (simp add: jsRemainder_def x)
qed

lemma constructor_padding:
  "padding (constructor symb geom dyn) =
     (if (\<exists>k::int. lineWidth (translateLineAndFill (translate symb)) = of_int k \<and> even k)
      then (2, 2) else (3, 3))"
  by (simp add: constructor_def Let_def defineStyle_def jsRemainder_two)

lemma createMarkerImage_dims:
  "width (snd (stateOf (createMarkerImage self))) =
     \<lceil>markerWidth (style self) + lineWidth (strokeAndFill self) + 2 * shadowBlur (geometry self)
       + 2 * fst (padding self)\<rceil>"
  "height (snd (stateOf (createMarkerImage self))) =
     \<lceil>markerHeight (style self) + lineWidth (strokeAndFill self) + 2 * shadowBlur (geometry self)
       + 2 * snd (padding self)\<rceil>"
  by (simp_all add: createMarkerImage_def Let_def stateOf_def round_util_def mult.commute
      split: outcome.splits)

lemma stampSymbol_frame [simp]:
  "style (snd (stampSymbol ns gs self)) = style self"
  "strokeAndFill (snd (stampSymbol ns gs self)) = strokeAndFill self"
  "geometry (snd (stampSymbol ns gs self)) = geometry self"
  "padding (snd (stampSymbol ns gs self)) = padding self"
  by (simp_all add: stampSymbol_def Let_def split: option.splits)

lemma drawMarkersWithCache_miss:
  assumes "getImage res (fst (stampSymbol ns gs self)) = None"
    and "isNormal (drawMarkersWithCache ns gs self ctx pts res)"
  shows "snd (snd (stateOf (drawMarkersWithCache ns gs self ctx pts res)))
           (fst (stampSymbol ns gs self)) =
         Some (snd (stateOf (createMarkerImage (snd (stampSymbol ns gs self)))))"
  using assms
  by (auto simp add: drawMarkersWithCache_def Let_def stateOf_def isNormal_def addResource_def
      split: outcome.splits)

text \<open>
  The style resolved from the spec's example: a \<open>bar\<close> of width 10 and height 20 with
  the even line width 2, no shadow. The padding is \<open>(2, 2)\<close>, the image is 16 by 26, and
  the anchor in it is \<open>(8, 23)\<close>.
\<close>

theorem getAnchor_formula_witness:
  "getAnchor
      (constructor ((emptySymbol :: unit symbol)\<lparr>sym_markerType := Some ''bar'',
          sym_markerLineWidth := Some 2, sym_markerWidth := Some 10, sym_markerHeight := Some 20\<rparr>)
        onePoint False) 16 26 = Point 8 23
   \<and> getAnchor (constructor (emptySymbol :: unit symbol) onePoint False) 17 17 = Point (17 / 2) (17 / 2)"
  using getAnchor_formula [of "constructor ((emptySymbol :: unit symbol)\<lparr>sym_markerType := Some ''bar'',
          sym_markerLineWidth := Some 2, sym_markerWidth := Some 10, sym_markerHeight := Some 20\<rparr>)
        onePoint False" 16 26]
    getAnchor_formula [of "constructor (emptySymbol :: unit symbol) onePoint False" 17 17]
  by (simp add: constructor_def Let_def defineStyle_def translate_def translateLineAndFill_def
      emptySymbol_def getValueOrDefault_def onePoint_def jsRemainder_def truncToZero_def)

lemma translate_empty:
  "translate emptySymbol =
     \<lparr>markerType = ''ellipse'', markerFill = Color ''#00f'',
      markerFillOpacity = 1, markerFillPatternFile = None, markerLineColor = Color ''#000'',
      markerLineWidth = 1, markerLineOpacity = 1, markerLineDasharray = [],
      markerLinePatternFile = None, markerWidth = 10, markerHeight = 10,
      markerDx = 0, markerDy = 0\<rparr>"
  by (simp add: translate_def emptySymbol_def getValueOrDefault_def)

lemma isNormal_simps [simp]: "isNormal (Normal s)" "\<not> isNormal (Throw e s)"
  by (simp_all add: isNormal_def)

lemma stateOf_simps [simp]: "stateOf (Normal s) = s" "stateOf (Throw e s) = s"
  by (simp_all add: stateOf_def)

lemma isNormal_case [simp]:
  "isNormal (case r of Normal st \<Rightarrow> Normal (f st) | Throw e st \<Rightarrow> Throw e (g e st)) = isNormal r"
  by (cases r) simp_all

lemma createMarkerImage_normal:
  assumes "toLowerCase (markerType (style self)) \<in>
     {''ellipse'', ''cross'', ''x'', ''diamond'', ''square'', ''bar'', ''triangle'', ''pin'', ''pie''}"
  shows "isNormal (createMarkerImage self)"
  using assms by (simp add: createMarkerImage_def Let_def drawVectorMarker_normal)

lemma drawMarkersWithCache_normal:
  assumes "getImage res (fst (stampSymbol ns gs self)) = None"
    and "isNormal (createMarkerImage (snd (stampSymbol ns gs self)))"
  shows "isNormal (drawMarkersWithCache ns gs self ctx pts res)"
proof (cases "createMarkerImage (snd (stampSymbol ns gs self))")
  case (Normal created)
  then show ?thesis using assms(1) by (simp add: drawMarkersWithCache_def Let_def)
next
  case (Throw e created)
  then show ?thesis using assms(2) by simp
qed

text \<open>
  C3. The padding set by the constructor is \<open>(2, 2)\<close> when the line width is an even
  integer and \<open>(3, 3)\<close> otherwise. The canvas \<open>_createMarkerImage\<close> allocates has the width
  \<open>ceil(markerWidth + lineWidth + 2 * shadowBlur + 2 * padding[0])\<close> and the height
  \<open>ceil(markerHeight + lineWidth + 2 * shadowBlur + 2 * padding[1])\<close>, and on a cache miss
  of \<open>_drawMarkersWithCache\<close> that returns, the image registered under the stamp is that
  canvas.
\<close>

theorem createMarkerImage_size:
  "padding (constructor symb geom dyn) =
     (if (\<exists>k::int. lineWidth (strokeAndFill (constructor symb geom dyn)) = of_int k \<and> even k)
      then (2, 2) else (3, 3))
   \<and> width (snd (stateOf (createMarkerImage self))) =
       \<lceil>markerWidth (style self) + lineWidth (strokeAndFill self) + 2 * shadowBlur (geometry self)
         + 2 * fst (padding self)\<rceil>
   \<and> height (snd (stateOf (createMarkerImage self))) =
       \<lceil>markerHeight (style self) + lineWidth (strokeAndFill self) + 2 * shadowBlur (geometry self)
         + 2 * snd (padding self)\<rceil>
   \<and> (getImage res (fst (stampSymbol ns gs self)) = None
        \<and> isNormal (drawMarkersWithCache ns gs self ctx pts res)
      \<longrightarrow> (\<exists>img. snd (snd (stateOf (drawMarkersWithCache ns gs self ctx pts res)))
                    (fst (stampSymbol ns gs self)) = Some img
                \<and> width img =
                    \<lceil>markerWidth (style self) + lineWidth (strokeAndFill self)
                      + 2 * shadowBlur (geometry self) + 2 * fst (padding self)\<rceil>
                \<and> height img =
                    \<lceil>markerHeight (style self) + lineWidth (strokeAndFill self)
                      + 2 * shadowBlur (geometry self) + 2 * snd (padding self)\<rceil>))"
proof (intro conjI impI)
  show "padding (constructor symb geom dyn) =
     (if (\<exists>k::int. lineWidth (strokeAndFill (constructor symb geom dyn)) = of_int k \<and> even k)
      then (2, 2) else (3, 3))"
    by (simp only: constructor_padding constructor_sel)
next
  assume a: "getImage res (fst (stampSymbol ns gs self)) = None
        \<and> isNormal (drawMarkersWithCache ns gs self ctx pts res)"
  let ?img = "snd (stateOf (createMarkerImage (snd (stampSymbol ns gs self))))"
  have "snd (snd (stateOf (drawMarkersWithCache ns gs self ctx pts res)))
           (fst (stampSymbol ns gs self)) = Some ?img"
    using a by (intro drawMarkersWithCache_miss) simp_all
  moreover have "width ?img =
      \<lceil>markerWidth (style self) + lineWidth (strokeAndFill self)
        + 2 * shadowBlur (geometry self) + 2 * fst (padding self)\<rceil>"
    by (simp add: createMarkerImage_dims)
  moreover have "height ?img =
      \<lceil>markerHeight (style self) + lineWidth (strokeAndFill self)
        + 2 * shadowBlur (geometry self) + 2 * snd (padding self)\<rceil>"
    by (simp add: createMarkerImage_dims)
  ultimately show "\<exists>img. snd (snd (stateOf (drawMarkersWithCache ns gs self ctx pts res)))
                    (fst (stampSymbol ns gs self)) = Some img
                \<and> width img =
                    \<lceil>markerWidth (style self) + lineWidth (strokeAndFill self)
                      + 2 * shadowBlur (geometry self) + 2 * fst (padding self)\<rceil>
                \<and> height img =
                    \<lceil>markerHeight (style self) + lineWidth (strokeAndFill self)
                      + 2 * shadowBlur (geometry self) + 2 * snd (padding self)\<rceil>"
    by blast
qed (simp_all only: createMarkerImage_dims)

text \<open>
  The default style (line width 1, odd) on an empty resource pool: the padding is
  \<open>(3, 3)\<close> and the image registered is 17 by 17. With the line width 2 the padding is
  \<open>(2, 2)\<close>, and with the line width 2.5 it is \<open>(3, 3)\<close>.
\<close>

theorem createMarkerImage_size_witness:
  "getImage Map.empty
      (fst (stampSymbol (\<lambda>r. []) (\<lambda>g. []) (constructor (emptySymbol :: unit symbol) onePoint False))) = None
   \<and> isNormal (drawMarkersWithCache (\<lambda>r. []) (\<lambda>g. [])
        (constructor (emptySymbol :: unit symbol) onePoint False) newContext [Point 5 5] Map.empty)
   \<and> padding (constructor (emptySymbol :: unit symbol) onePoint False) = (3, 3)
   \<and> (\<exists>img. snd (snd (stateOf (drawMarkersWithCache (\<lambda>r. []) (\<lambda>g. [])
          (constructor (emptySymbol :: unit symbol) onePoint False) newContext [Point 5 5] Map.empty)))
          (fst (stampSymbol (\<lambda>r. []) (\<lambda>g. []) (constructor (emptySymbol :: unit symbol) onePoint False)))
          = Some img
        \<and> width img = 17 \<and> height img = 17)
   \<and> padding (constructor ((emptySymbol :: unit symbol)\<lparr>sym_markerLineWidth := Some 2\<rparr>) onePoint False)
        = (2, 2)
   \<and> padding (constructor ((emptySymbol :: unit symbol)\<lparr>sym_markerLineWidth := Some (5 / 2)\<rparr>) onePoint False)
        = (3, 3)"
proof -
  let ?self = "constructor (emptySymbol :: unit symbol) onePoint False"
  have miss: "getImage Map.empty (fst (stampSymbol (\<lambda>r. []) (\<lambda>g. []) ?self)) = None"
    by (simp add: getImage_def)
  have k: "toLowerCase (markerType (style ?self)) = ''ellipse''"
    by (simp add: translate_empty)
  have "isNormal (createMarkerImage (snd (stampSymbol (\<lambda>r. []) (\<lambda>g. []) ?self)))"
    using k by (intro createMarkerImage_normal) simp
  with miss have n: "isNormal (drawMarkersWithCache (\<lambda>r. []) (\<lambda>g. []) ?self newContext [Point 5 5] Map.empty)"
    by (rule drawMarkersWithCache_normal)
  have sb: "shadowBlur onePoint = 0" by (simp add: onePoint_def)
  have p3: "padding ?self = (3, 3)"
    by (simp add: constructor_def Let_def defineStyle_def translate_def translateLineAndFill_def
        emptySymbol_def getValueOrDefault_def jsRemainder_def truncToZero_def)
  have dims: "\<lceil>markerWidth (style ?self) + lineWidth (strokeAndFill ?self)
        + 2 * shadowBlur (geometry ?self) + 2 * fst (padding ?self)\<rceil> = 17"
      "\<lceil>markerHeight (style ?self) + lineWidth (strokeAndFill ?self)
        + 2 * shadowBlur (geometry ?self) + 2 * snd (padding ?self)\<rceil> = 17"
    by (simp_all add: p3 sb translate_empty translateLineAndFill_def)
  have p2: "padding (constructor ((emptySymbol :: unit symbol)\<lparr>sym_markerLineWidth := Some 2\<rparr>) onePoint False)
        = (2, 2)"
    by (simp add: constructor_def Let_def defineStyle_def translate_def translateLineAndFill_def
        emptySymbol_def getValueOrDefault_def jsRemainder_def truncToZero_def)
  have p25: "padding (constructor ((emptySymbol :: unit symbol)\<lparr>sym_markerLineWidth := Some (5 / 2)\<rparr>) onePoint False)
        = (3, 3)"
    by (simp add: constructor_def Let_def defineStyle_def translate_def translateLineAndFill_def
        emptySymbol_def getValueOrDefault_def jsRemainder_def truncToZero_def)
  from createMarkerImage_size [of "emptySymbol :: unit symbol" onePoint False ?self Map.empty
      "\<lambda>r. []" "\<lambda>g. []" newContext "[Point 5 5]"] miss n
  have "\<exists>img. snd (snd (stateOf (drawMarkersWithCache (\<lambda>r. []) (\<lambda>g. []) ?self newContext
          [Point 5 5] Map.empty))) (fst (stampSymbol (\<lambda>r. []) (\<lambda>g. []) ?self)) = Some img
        \<and> width img = 17 \<and> height img = 17"
    by (simp only: dims) blast
  with miss n p3 p2 p25 show ?thesis by blast
qed

section \<open>The identity stamp\<close>

lemma stamp_nonempty: "join ''_'' (stampParts ns gs s) \<noteq> []"
  by (simp add: stampParts_def)

lemma stampSymbol_fresh:
  assumes "stamp self = None"
  shows "stampSymbol ns gs self =
     (join ''_'' (stampParts ns gs (style self)),
      self\<lparr>stamp := Some (join ''_'' (stampParts ns gs (style self)))\<rparr>)"
  using assms by (simp add: stampSymbol_def Let_def)

lemma stampSymbol_cached:
  assumes "stamp self = Some c" and "c \<noteq> []"
  shows "stampSymbol ns gs self = (c, self)"
  using assms by (simp add: stampSymbol_def Let_def)

lemma stampParts_fill:
  "(join ''_'' (stampParts ns gs (s\<lparr>markerFill := f1\<rparr>)) =
    join ''_'' (stampParts ns gs (s\<lparr>markerFill := f2\<rparr>)))
   = ((case f1 of Gradient g \<Rightarrow> gs g | Color c \<Rightarrow> c) = (case f2 of Gradient g \<Rightarrow> gs g | Color c \<Rightarrow> c))"
  by (simp add: stampParts_def)

lemma translate_fill:
  "translate (symb\<lparr>sym_markerFill := Some f\<rparr>) = (translate symb)\<lparr>markerFill := f\<rparr>"
  by (simp add: translate_def getValueOrDefault_def Let_def split: option.splits)

lemma translate_dxdy:
  "translate (symb\<lparr>sym_markerDx := dx, sym_markerDy := dy\<rparr>) =
     (translate symb)\<lparr>markerDx := getValueOrDefault dx 0, markerDy := getValueOrDefault dy 0\<rparr>"
  by (simp add: translate_def getValueOrDefault_def Let_def split: option.splits)

lemma stampParts_dxdy:
  "stampParts ns gs (s\<lparr>markerDx := dx, markerDy := dy\<rparr>) = stampParts ns gs s"
  by (simp add: stampParts_def)

text \<open>
  C2, the claim as stated fails: two symbolizers whose styles differ only in
  \<open>markerFill\<close>, a gradient in the one and, in the other, the colour string equal to the
  signature of that gradient, have the same stamp. (Here a gradient is given by its
  signature; the same holds for every stamping function and every conversion of
  numbers.)
\<close>

theorem stampSymbol_fill_counterexample:
  "fst (stampSymbol (\<lambda>r. []) (\<lambda>g. g)
      (constructor (emptySymbol\<lparr>sym_markerFill := Some (Gradient ''linear_0,red,1,blue'')\<rparr>)
         onePoint False))
   = fst (stampSymbol (\<lambda>r. []) (\<lambda>g. g)
      (constructor (emptySymbol\<lparr>sym_markerFill := Some (Color ''linear_0,red,1,blue'')\<rparr>)
         onePoint False))
   \<and> style (constructor (emptySymbol\<lparr>sym_markerFill := Some (Color ''linear_0,red,1,blue'')\<rparr>)
         onePoint False)
     = (style (constructor (emptySymbol\<lparr>sym_markerFill := Some (Gradient ''linear_0,red,1,blue'')\<rparr>)
         onePoint False))\<lparr>markerFill := Color ''linear_0,red,1,blue''\<rparr>
   \<and> (Gradient ''linear_0,red,1,blue'' :: string paint) \<noteq> Color ''linear_0,red,1,blue''"
  by (simp add: stampSymbol_fresh translate_fill stampParts_fill)

text \<open>
  C2, as amended. The stamp of a symbolizer is the join with \<open>_\<close> of, in this order, the
  marker type, the fill colour or the signature of the fill gradient, the fill opacity,
  the fill pattern file, the line colour or the signature of the line gradient, the line
  width, the line opacity, the dash array joined with commas, the line pattern file, the
  width and the height. It is computed at the first call and kept: the second call
  returns the kept stamp, whatever the conversion functions. The stamp does not depend on
  \<open>markerDx\<close>, \<open>markerDy\<close> or the geometry, which holds the rotation of the instances. Two
  symbolizers whose styles differ only in \<open>markerFill\<close> have the same stamp exactly when
  the fill colours, or the signatures of the fill gradients, are the same string; two
  different colour strings give different stamps.
\<close>

theorem stampSymbol_identity:
  "fst (stampSymbol ns gs (constructor symb geom dyn)) =
     join ''_''
       [markerType (translate symb),
        (case markerFill (translate symb) of Gradient g \<Rightarrow> gs g | Color c \<Rightarrow> c),
        ns (markerFillOpacity (translate symb)),
        (case markerFillPatternFile (translate symb) of None \<Rightarrow> [] | Some f \<Rightarrow> f),
        (case markerLineColor (translate symb) of Gradient g \<Rightarrow> gs g | Color c \<Rightarrow> c),
        ns (markerLineWidth (translate symb)),
        ns (markerLineOpacity (translate symb)),
        join '','' (map ns (markerLineDasharray (translate symb))),
        (case markerLinePatternFile (translate symb) of None \<Rightarrow> [] | Some f \<Rightarrow> f),
        ns (markerWidth (translate symb)),
        ns (markerHeight (translate symb))]
   \<and> stamp (snd (stampSymbol ns gs (constructor symb geom dyn))) =
       Some (fst (stampSymbol ns gs (constructor symb geom dyn)))
   \<and> stampSymbol ns' gs' (snd (stampSymbol ns gs (constructor symb geom dyn))) =
       stampSymbol ns gs (constructor symb geom dyn)
   \<and> fst (stampSymbol ns gs
         (constructor (symb\<lparr>sym_markerDx := dx, sym_markerDy := dy\<rparr>) geom' dyn')) =
       fst (stampSymbol ns gs (constructor symb geom dyn))
   \<and> (fst (stampSymbol ns gs (constructor (symb\<lparr>sym_markerFill := Some f1\<rparr>) geom dyn)) =
       fst (stampSymbol ns gs (constructor (symb\<lparr>sym_markerFill := Some f2\<rparr>) geom dyn)))
      = ((case f1 of Gradient g \<Rightarrow> gs g | Color c \<Rightarrow> c) =
         (case f2 of Gradient g \<Rightarrow> gs g | Color c \<Rightarrow> c))
   \<and> (fst (stampSymbol ns gs (constructor (symb\<lparr>sym_markerFill := Some (Color c1)\<rparr>) geom dyn)) =
       fst (stampSymbol ns gs (constructor (symb\<lparr>sym_markerFill := Some (Color c2)\<rparr>) geom dyn)))
      = (c1 = c2)"
proof -
  let ?self = "constructor symb geom dyn"
  let ?st = "join ''_'' (stampParts ns gs (translate symb))"
  have fresh: "stampSymbol ns gs ?self = (?st, ?self\<lparr>stamp := Some ?st\<rparr>)"
    by (simp add: stampSymbol_fresh)
  have again: "stampSymbol ns' gs' (?self\<lparr>stamp := Some ?st\<rparr>) = (?st, ?self\<lparr>stamp := Some ?st\<rparr>)"
    by (rule stampSymbol_cached) (simp_all add: stamp_nonempty)
  show ?thesis
    by (simp add: fresh again stampSymbol_fresh translate_fill translate_dxdy stampParts_dxdy
        stampParts_fill)
      (simp add: stampParts_def)
qed

section \<open>The early exit of symbolize\<close>

lemma symbolize_zero_size:
  assumes "markerWidth (style self) = 0 \<or> markerHeight (style self) = 0"
  shows "symbolize ns gs (self, ctx, res) = Normal (self, ctx, res)"
  using assms by (auto simp add: symbolize_def Let_def styleProp_def)

lemma styleProp_opacity:
  "styleProp s ''polygonOpacity'' = Undefined" "styleProp s ''lineOpacity'' = Undefined"
  by (simp_all add: styleProp_def)

text \<open>
  C1, at the failing input: the symbol definition with \<open>markerFillOpacity = 0\<close> and
  \<open>markerLineOpacity = 0\<close> and nothing else, one point to render, an empty resource pool.
  Both opacities of the style are 0, and so are \<open>polygonOpacity\<close> and \<open>lineOpacity\<close> of
  the stroke-and-fill style; \<open>symbolize\<close> reads the two from \<open>this.style\<close>, which has no
  such keys, does not exit early, and issues two calls on the surface: the preparation
  and the blit of a marker image that it has rasterized.
\<close>

theorem symbolize_zero_opacity_draws:
  "markerFillOpacity (style (constructor
      ((emptySymbol :: unit symbol)\<lparr>sym_markerFillOpacity := Some 0, sym_markerLineOpacity := Some 0\<rparr>)
      onePoint False)) = 0
   \<and> markerLineOpacity (style (constructor
      ((emptySymbol :: unit symbol)\<lparr>sym_markerFillOpacity := Some 0, sym_markerLineOpacity := Some 0\<rparr>)
      onePoint False)) = 0
   \<and> polygonOpacity (strokeAndFill (constructor
      ((emptySymbol :: unit symbol)\<lparr>sym_markerFillOpacity := Some 0, sym_markerLineOpacity := Some 0\<rparr>)
      onePoint False)) = 0
   \<and> lineOpacity (strokeAndFill (constructor
      ((emptySymbol :: unit symbol)\<lparr>sym_markerFillOpacity := Some 0, sym_markerLineOpacity := Some 0\<rparr>)
      onePoint False)) = 0
   \<and> calls (fst (snd (stateOf (symbolize (\<lambda>r. []) (\<lambda>g. [])
        (constructor
           ((emptySymbol :: unit symbol)\<lparr>sym_markerFillOpacity := Some 0, sym_markerLineOpacity := Some 0\<rparr>)
           onePoint False,
         newContext, Map.empty))))) =
      [PrepareContext,
       Image (Canvas 17 17
          [PrepareCanvas \<lparr>lineColor = Color ''#000'', linePatternFile = None, lineWidth = 1,
             lineOpacity = 0, lineDasharray = None, lineCap = ''butt'',
             lineJoin = ''round'', polygonFill = Color ''#00f'',
             polygonPatternFile = None, polygonOpacity = 0,
             lineGradientExtent = None, polygonGradientExtent = None\<rparr>,
           Ellipse (Point (17 / 2) (17 / 2)) 5 5 0 0]) (- (7 / 2)) (- (7 / 2))]"
  by (simp add: symbolize_def constructor_def emptySymbol_def onePoint_def translate_def
      translateLineAndFill_def defineStyle_def getValueOrDefault_def styleProp_def Let_def
      jsRemainder_def truncToZero_def drawMarkersWithCache_def stampSymbol_def stampParts_def
      getImage_def createMarkerImage_def round_util_def getAnchor_def toLowerCase_def
      newContext_def isGradient_def issue_def drawVectorMarker_def prepareGradient_def
      getVectorPoints_def addResource_def rotate_at_def getRotationAt_def substract_def)

section \<open>Unsupported marker types\<close>

lemma errorOf_simps [simp]: "errorOf (Normal s) = None" "errorOf (Throw e s) = Some e"
  by (simp_all add: errorOf_def)

lemma prepareGradient_keeps [simp]:
  "style (fst (prepareGradient self ctx p)) = style self"
  "geometry (fst (prepareGradient self ctx p)) = geometry self"
  by (simp_all add: prepareGradient_def Let_def)

lemma drawVectorMarker_keeps:
  "style (fst (stateOf (drawVectorMarker self ctx p))) = style self"
  "geometry (fst (stateOf (drawVectorMarker self ctx p))) = geometry self"
  by (simp_all add: drawVectorMarker_def Let_def)

lemma drawMarkersLoop_no_rotation:
  assumes "rotationAt (geometry (fst st)) = (\<lambda>i. None)"
  shows "surfaceState (snd (stateOf (drawMarkersLoop pts i st))) = surfaceState (snd st)"
  using assms
proof (induction i arbitrary: st)
  case 0
  then show ?case by simp
next
  case (Suc i)
  have rot: "getRotationAt (fst st) i = None"
    using Suc.prems by (simp add: getRotationAt_def)
  show ?case
  proof (cases "drawVectorMarker (fst st) (snd st) (pts ! i)")
    case (Normal st1)
    have s1: "surfaceState (snd st1) = surfaceState (snd st)"
      using surfaceState_drawVectorMarker [of "fst st" "snd st" "pts ! i"] Normal by simp
    have "rotationAt (geometry (fst (fst st1, snd st1))) = (\<lambda>i. None)"
      using drawVectorMarker_keeps(2) [of "fst st" "snd st" "pts ! i"] Normal Suc.prems by simp
    from Suc.IH [OF this] s1 Normal rot show ?thesis by (simp add: Let_def)
  next
    case (Throw e st1)
    have "surfaceState (snd st1) = surfaceState (snd st)"
      using surfaceState_drawVectorMarker [of "fst st" "snd st" "pts ! i"] Throw by simp
    with Throw rot show ?thesis by (simp add: Let_def)
  qed
qed

lemma symbolize_no_rotation:
  assumes "rotationAt (geometry self) = (\<lambda>i. None)"
  shows "surfaceState (fst (snd (stateOf (symbolize ns gs (self, ctx, res))))) = surfaceState ctx"
proof -
  let ?pts = "renderContainerPoints (geometry self)"
  let ?ctx1 = "issue ctx PrepareContext"
  have live: "surfaceState (snd (stateOf (drawMarkers self ?ctx1 ?pts))) = surfaceState ctx"
    using drawMarkersLoop_no_rotation [of "(self, c)" ?pts "length ?pts" for c] assms
    by (simp add: drawMarkers_def Let_def)
  have cached: "surfaceState (fst (snd (stateOf (drawMarkersWithCache ns gs self ?ctx1 ?pts res))))
      = surfaceState ctx"
    by (simp add: drawMarkersWithCache_restores)
  show ?thesis
    using live cached
    by (cases "drawMarkers self ?ctx1 ?pts") (simp_all add: symbolize_def Let_def)
qed

lemma drawMarkersLoop_supported:
  assumes "toLowerCase (markerType (style (fst st))) \<in>
     {''ellipse'', ''cross'', ''x'', ''diamond'', ''square'', ''bar'', ''triangle'', ''pin'', ''pie''}"
  shows "isNormal (drawMarkersLoop pts i st)"
  using assms
proof (induction i arbitrary: st)
  case 0
  then show ?case by simp
next
  case (Suc i)
  let ?rot = "rotate_at (snd st) (pts ! i) (getRotationAt (fst st) i)"
  let ?p1 = "case snd ?rot of Some p \<Rightarrow> p | None \<Rightarrow> pts ! i"
  have n: "isNormal (drawVectorMarker (fst st) (fst ?rot) ?p1)"
    using Suc.prems by (rule drawVectorMarker_normal)
  then obtain st1 where dvm: "drawVectorMarker (fst st) (fst ?rot) ?p1 = Normal st1"
    by (cases "drawVectorMarker (fst st) (fst ?rot) ?p1") simp_all
  have "style (fst st1) = style (fst st)"
    using drawVectorMarker_keeps(1) [of "fst st" "fst ?rot" ?p1] dvm by simp
  then have "isNormal (drawMarkersLoop pts i (fst st1, c))" for c
    using Suc.IH [of "(fst st1, c)"] Suc.prems by simp
  then show ?case using dvm by (simp add: Let_def)
qed

lemma drawMarkers_supported:
  assumes "toLowerCase (markerType (style self)) \<in>
     {''ellipse'', ''cross'', ''x'', ''diamond'', ''square'', ''bar'', ''triangle'', ''pin'', ''pie''}"
  shows "isNormal (drawMarkers self ctx pts)"
  using assms drawMarkersLoop_supported [of "(self, c)" pts "length pts" for c]
  by (simp add: drawMarkers_def Let_def)

lemma calls_rotate_at [simp]: "calls (fst (rotate_at c p r)) = calls c"
  by (simp add: rotate_at_def save_def split: option.splits)

text \<open>
  The state in which \<open>_drawMarkers\<close> leaves by the throw of the first instance it draws,
  the last of the points.
\<close>

lemma drawMarkers_unsupported:
  assumes k: "toLowerCase (markerType (style self)) \<notin>
     {''ellipse'', ''cross'', ''x'', ''diamond'', ''square'', ''bar'', ''triangle'', ''pin'', ''pie''}"
    and pts: "pts \<noteq> []"
  shows "errorOf (drawMarkers self ctx pts) =
           Some (UnsupportedMarkerType (toLowerCase (markerType (style self))))"
    and "calls (snd (stateOf (drawMarkers self ctx pts))) =
           calls ctx @ [PrepareCanvas (strokeAndFill (fst (stateOf (drawMarkers self ctx pts))))]"
    and "surfaceState (snd (stateOf (drawMarkers self ctx pts))) =
           (case rotationAt (geometry self) (length pts - 1) of
              None \<Rightarrow> surfaceState ctx
            | Some rot \<Rightarrow>
                (ctxLineCap ctx,
                 transform ctx @ [Translate (px (last pts)) (py (last pts)), Rotate rot],
                 (ctxLineCap ctx, transform ctx) # saved ctx))"
proof -
  obtain n where n: "length pts = Suc n" using pts by (cases pts) auto
  have lastp: "pts ! n = last pts" using n pts by (simp add: last_conv_nth)
  let ?sf = "strokeAndFill self"
  let ?g = "isGradient (lineColor ?sf) \<or> isGradient (polygonFill ?sf)"
  let ?ctx1 = "if \<not> ?g then issue ctx (PrepareCanvas ?sf) else ctx"
  let ?rot = "rotate_at ?ctx1 (last pts) (rotationAt (geometry self) n)"
  let ?p1 = "case snd ?rot of Some p \<Rightarrow> p | None \<Rightarrow> last pts"
  have run: "drawMarkers self ctx pts =
      Throw (UnsupportedMarkerType (toLowerCase (markerType (style self))))
        (prepareGradient self (fst ?rot) ?p1)"
    using k by (simp add: drawMarkers_def Let_def n lastp getRotationAt_def drawVectorMarker_throw)
  show "errorOf (drawMarkers self ctx pts) =
           Some (UnsupportedMarkerType (toLowerCase (markerType (style self))))"
    by (simp add: run)
  show "calls (snd (stateOf (drawMarkers self ctx pts))) =
           calls ctx @ [PrepareCanvas (strokeAndFill (fst (stateOf (drawMarkers self ctx pts))))]"
    by (simp add: run prepareGradient_def Let_def issue_def)
  have "surfaceState (fst ?rot) =
           (case rotationAt (geometry self) n of
              None \<Rightarrow> surfaceState ctx
            | Some rot \<Rightarrow>
                (ctxLineCap ctx,
                 transform ctx @ [Translate (px (last pts)) (py (last pts)), Rotate rot],
                 (ctxLineCap ctx, transform ctx) # saved ctx))"
    by (simp add: rotate_at_def save_def surfaceState_def issue_def split: option.splits)
  then show "surfaceState (snd (stateOf (drawMarkers self ctx pts))) =
           (case rotationAt (geometry self) (length pts - 1) of
              None \<Rightarrow> surfaceState ctx
            | Some rot \<Rightarrow>
                (ctxLineCap ctx,
                 transform ctx @ [Translate (px (last pts)) (py (last pts)), Rotate rot],
                 (ctxLineCap ctx, transform ctx) # saved ctx))"
    by (simp add: run n)
qed

lemma createMarkerImage_unsupported:
  assumes "toLowerCase (markerType (style self)) \<notin>
     {''ellipse'', ''cross'', ''x'', ''diamond'', ''square'', ''bar'', ''triangle'', ''pin'', ''pie''}"
  shows "errorOf (createMarkerImage self) =
           Some (UnsupportedMarkerType (toLowerCase (markerType (style self))))"
  using assms by (simp add: createMarkerImage_def Let_def drawVectorMarker_throw)

lemma drawMarkersWithCache_hit:
  assumes "getImage res (fst (stampSymbol ns gs self)) \<noteq> None"
  shows "isNormal (drawMarkersWithCache ns gs self ctx pts res)"
  using assms by (auto simp add: drawMarkersWithCache_def Let_def)

lemma drawMarkersWithCache_unsupported:
  assumes k: "toLowerCase (markerType (style self)) \<notin>
     {''ellipse'', ''cross'', ''x'', ''diamond'', ''square'', ''bar'', ''triangle'', ''pin'', ''pie''}"
    and miss: "getImage res (fst (stampSymbol ns gs self)) = None"
  shows "errorOf (drawMarkersWithCache ns gs self ctx pts res) =
           Some (UnsupportedMarkerType (toLowerCase (markerType (style self))))"
    and "fst (snd (stateOf (drawMarkersWithCache ns gs self ctx pts res))) = ctx"
proof -
  let ?self1 = "snd (stampSymbol ns gs self)"
  have "errorOf (createMarkerImage ?self1) =
      Some (UnsupportedMarkerType (toLowerCase (markerType (style self))))"
    using createMarkerImage_unsupported [of ?self1] k by simp
  then obtain created where cm: "createMarkerImage ?self1 =
      Throw (UnsupportedMarkerType (toLowerCase (markerType (style self)))) created"
    by (cases "createMarkerImage ?self1") simp_all
  show "errorOf (drawMarkersWithCache ns gs self ctx pts res) =
           Some (UnsupportedMarkerType (toLowerCase (markerType (style self))))"
    using miss by (simp add: drawMarkersWithCache_def Let_def cm)
  show "fst (snd (stateOf (drawMarkersWithCache ns gs self ctx pts res))) = ctx"
    using miss by (simp add: drawMarkersWithCache_def Let_def cm)
qed

lemma isNormal_errorOf: "isNormal r = (errorOf r = None)"
  by (cases r) simp_all

lemma symbolize_draws:
  assumes "markerWidth (style self) \<noteq> 0" and "markerHeight (style self) \<noteq> 0"
    and "renderContainerPoints (geometry self) \<noteq> []"
  shows "symbolize ns gs (self, ctx, res) =
     (if isSpriting (geometry self) \<or> maskIsGeometry (geometry self) \<or> dynamic self
         \<or> cacheVectorOnCanvas (geometry self) = Some False
      then (case drawMarkers self (issue ctx PrepareContext) (renderContainerPoints (geometry self)) of
              Normal st \<Rightarrow> Normal (fst st, snd st, res)
            | Throw e st \<Rightarrow> Throw e (fst st, snd st, res))
      else drawMarkersWithCache ns gs self (issue ctx PrepareContext)
             (renderContainerPoints (geometry self)) res)"
  using assms by (simp add: symbolize_def Let_def styleProp_def)

lemma outcome_repack:
  "isNormal (case r of Normal st \<Rightarrow> Normal (f st) | Throw e st \<Rightarrow> Throw e (f st)) = isNormal r"
  "errorOf (case r of Normal st \<Rightarrow> Normal (f st) | Throw e st \<Rightarrow> Throw e (f st)) = errorOf r"
  "stateOf (case r of Normal st \<Rightarrow> Normal (f st) | Throw e st \<Rightarrow> Throw e (f st)) = f (stateOf r)"
  by (cases r; simp)+

lemma symbolize_normal_iff:
  "isNormal (symbolize ns gs (self, ctx, res)) =
     (toLowerCase (markerType (style self)) \<in>
        {''ellipse'', ''cross'', ''x'', ''diamond'', ''square'', ''bar'', ''triangle'', ''pin'', ''pie''}
      \<or> markerWidth (style self) = 0 \<or> markerHeight (style self) = 0
      \<or> renderContainerPoints (geometry self) = []
      \<or> (\<not> (isSpriting (geometry self) \<or> maskIsGeometry (geometry self) \<or> dynamic self
               \<or> cacheVectorOnCanvas (geometry self) = Some False)
           \<and> getImage res (fst (stampSymbol ns gs self)) \<noteq> None))"
proof (cases "markerWidth (style self) = 0 \<or> markerHeight (style self) = 0")
  case True
  then show ?thesis using symbolize_zero_size [of self ns gs ctx res] by auto
next
  case size: False
  show ?thesis
  proof (cases "renderContainerPoints (geometry self) = []")
    case True
    then show ?thesis by (simp add: symbolize_def Let_def)
  next
    case pts: False
    note run = symbolize_draws [of self ns gs ctx res]
    show ?thesis
    proof (cases "toLowerCase (markerType (style self)) \<in>
        {''ellipse'', ''cross'', ''x'', ''diamond'', ''square'', ''bar'', ''triangle'', ''pin'', ''pie''}")
      case True
      have "isNormal (createMarkerImage (snd (stampSymbol ns gs self)))"
        using True createMarkerImage_normal [of "snd (stampSymbol ns gs self)"] by simp
      then have "isNormal (drawMarkersWithCache ns gs self c p res)" for c p
        using drawMarkersWithCache_normal [of res ns gs self c p]
          drawMarkersWithCache_hit [of res ns gs self c p] by blast
      moreover have "isNormal (drawMarkers self c p)" for c p
        using True by (rule drawMarkers_supported)
      ultimately show ?thesis using True size pts run
        by (simp only: outcome_repack(1) [where f = "\<lambda>st. (fst st, snd st, res)"] split: if_splits) simp
    next
      case False
      have live: "\<not> isNormal (drawMarkers self c (renderContainerPoints (geometry self)))" for c
        using drawMarkers_unsupported(1) [OF False pts, of c] by (simp add: isNormal_errorOf)
      have cached: "isNormal (drawMarkersWithCache ns gs self c p res) =
          (getImage res (fst (stampSymbol ns gs self)) \<noteq> None)" for c p
      proof (cases "getImage res (fst (stampSymbol ns gs self)) = None")
        case True
        from drawMarkersWithCache_unsupported(1) [OF False True]
        show ?thesis using True by (simp add: isNormal_errorOf)
      next
        case False
        then show ?thesis using drawMarkersWithCache_hit [of res ns gs self c p] by simp
      qed
      show ?thesis using False size pts live cached
        by (simp add: run outcome_repack(1) [where f = "\<lambda>st. (fst st, snd st, res)"])
    qed
  qed
qed

lemma symbolize_thrown:
  assumes thrown: "\<not> isNormal (symbolize ns gs (self, ctx, res))"
  shows "errorOf (symbolize ns gs (self, ctx, res)) =
           Some (UnsupportedMarkerType (toLowerCase (markerType (style self))))"
    and "\<not> (isSpriting (geometry self) \<or> maskIsGeometry (geometry self) \<or> dynamic self
             \<or> cacheVectorOnCanvas (geometry self) = Some False)
         \<Longrightarrow> fst (snd (stateOf (symbolize ns gs (self, ctx, res)))) = issue ctx PrepareContext"
    and "isSpriting (geometry self) \<or> maskIsGeometry (geometry self) \<or> dynamic self
             \<or> cacheVectorOnCanvas (geometry self) = Some False
         \<Longrightarrow> calls (fst (snd (stateOf (symbolize ns gs (self, ctx, res))))) =
               calls ctx @ [PrepareContext,
                 PrepareCanvas (strokeAndFill (fst (stateOf (symbolize ns gs (self, ctx, res)))))]
             \<and> surfaceState (fst (snd (stateOf (symbolize ns gs (self, ctx, res))))) =
               (case rotationAt (geometry self) (length (renderContainerPoints (geometry self)) - 1) of
                  None \<Rightarrow> surfaceState ctx
                | Some rot \<Rightarrow>
                    (ctxLineCap ctx,
                     transform ctx @ [Translate (px (last (renderContainerPoints (geometry self))))
                                        (py (last (renderContainerPoints (geometry self)))), Rotate rot],
                     (ctxLineCap ctx, transform ctx) # saved ctx))"
proof -
  let ?pts = "renderContainerPoints (geometry self)"
  let ?c1 = "issue ctx PrepareContext"
  from thrown have k: "toLowerCase (markerType (style self)) \<notin>
      {''ellipse'', ''cross'', ''x'', ''diamond'', ''square'', ''bar'', ''triangle'', ''pin'', ''pie''}"
    and size: "markerWidth (style self) \<noteq> 0" "markerHeight (style self) \<noteq> 0"
    and pts: "?pts \<noteq> []"
    and miss: "\<not> (isSpriting (geometry self) \<or> maskIsGeometry (geometry self) \<or> dynamic self
             \<or> cacheVectorOnCanvas (geometry self) = Some False)
         \<Longrightarrow> getImage res (fst (stampSymbol ns gs self)) = None"
    by (simp_all add: symbolize_normal_iff)
  note run = symbolize_draws [OF size pts, of ns gs ctx res]
  note live = drawMarkers_unsupported [OF k pts, of ?c1]
  show "errorOf (symbolize ns gs (self, ctx, res)) =
           Some (UnsupportedMarkerType (toLowerCase (markerType (style self))))"
  proof (cases "isSpriting (geometry self) \<or> maskIsGeometry (geometry self) \<or> dynamic self
             \<or> cacheVectorOnCanvas (geometry self) = Some False")
    case True
    then show ?thesis using live(1)
      by (simp only: run if_True outcome_repack(2) [where f = "\<lambda>st. (fst st, snd st, res)"])
  next
    case False
    then show ?thesis
      using drawMarkersWithCache_unsupported(1) [OF k miss [OF False], of ?c1 ?pts]
      by (simp only: run if_False)
  qed
  show "fst (snd (stateOf (symbolize ns gs (self, ctx, res)))) = issue ctx PrepareContext"
    if c: "\<not> (isSpriting (geometry self) \<or> maskIsGeometry (geometry self) \<or> dynamic self
             \<or> cacheVectorOnCanvas (geometry self) = Some False)"
    using drawMarkersWithCache_unsupported(2) [OF k miss [OF c], of ?c1 ?pts] c
    by (simp only: run if_False)
  show "calls (fst (snd (stateOf (symbolize ns gs (self, ctx, res))))) =
               calls ctx @ [PrepareContext,
                 PrepareCanvas (strokeAndFill (fst (stateOf (symbolize ns gs (self, ctx, res)))))]
             \<and> surfaceState (fst (snd (stateOf (symbolize ns gs (self, ctx, res))))) =
               (case rotationAt (geometry self) (length (renderContainerPoints (geometry self)) - 1) of
                  None \<Rightarrow> surfaceState ctx
                | Some rot \<Rightarrow>
                    (ctxLineCap ctx,
                     transform ctx @ [Translate (px (last (renderContainerPoints (geometry self))))
                                        (py (last (renderContainerPoints (geometry self)))), Rotate rot],
                     (ctxLineCap ctx, transform ctx) # saved ctx))"
    if c: "isSpriting (geometry self) \<or> maskIsGeometry (geometry self) \<or> dynamic self
             \<or> cacheVectorOnCanvas (geometry self) = Some False"
  proof -
    have st: "stateOf (symbolize ns gs (self, ctx, res)) =
        (fst (stateOf (drawMarkers self ?c1 ?pts)), snd (stateOf (drawMarkers self ?c1 ?pts)), res)"
      using c by (simp only: run if_True outcome_repack(3) [where f = "\<lambda>st. (fst st, snd st, res)"])
    have cap: "ctxLineCap ?c1 = ctxLineCap ctx" "transform ?c1 = transform ctx"
      "saved ?c1 = saved ctx" "calls ?c1 = calls ctx @ [PrepareContext]"
      by (simp_all add: issue_def)
    show ?thesis using live(2) live(3) by (simp add: st cap split: option.splits)
  qed
qed

text \<open>
  C9, the claim as stated fails: a symbolizer of the unsupported marker type \<open>star\<close>,
  drawn live (the symbol is dynamic), one instance with a rotation defined. \<open>symbolize\<close>
  throws, and the surface it leaves is rotated about the instance, with the saved state
  still on its stack: what is drawn on the surface next is drawn rotated.
\<close>

theorem symbolize_unsupported_counterexample:
  "\<not> isNormal (symbolize (\<lambda>r. []) (\<lambda>g. [])
        (constructor ((emptySymbol :: unit symbol)\<lparr>sym_markerType := Some ''star''\<rparr>)
           (onePoint\<lparr>rotationAt := (\<lambda>i. Some 1)\<rparr>) True,
         newContext, Map.empty))
   \<and> surfaceState (fst (snd (stateOf (symbolize (\<lambda>r. []) (\<lambda>g. [])
        (constructor ((emptySymbol :: unit symbol)\<lparr>sym_markerType := Some ''star''\<rparr>)
           (onePoint\<lparr>rotationAt := (\<lambda>i. Some 1)\<rparr>) True,
         newContext, Map.empty)))))
      = (''butt'', [Translate 5 5, Rotate 1], [(''butt'', [])])
   \<and> surfaceState (newContext :: unit surface) = (''butt'', [], [])"
  by (simp add: symbolize_def drawMarkers_def Let_def drawVectorMarker_throw translate_emptySymbol
      styleProp_def getValueOrDefault_def getRotationAt_def onePoint_def rotate_at_def save_def
      prepareGradient_def translateLineAndFill_def isGradient_def issue_def newContext_def
      surfaceState_def)

text \<open>
  C9, as amended. The marker kind is the lower-cased marker type; it is supported when it
  is one of ellipse, cross, x, diamond, square, bar, triangle, pin and pie.

  \<^item> Drawing one instance of an unsupported kind throws the unsupported-marker-type error,
    after the preparation of a gradient style if there is one and before any shape is
    drawn; drawing one instance of a supported kind returns.
  \<^item> Nothing catches the error. \<open>symbolize\<close> returns exactly when the kind is supported,
    or the marker width or height is 0, or there is no point to render, or the cached
    path is taken and the resource pool already holds an image under the stamp of the
    symbol. In every other case, that is whenever an instance is drawn live or the marker
    image has to be rasterized, \<open>symbolize\<close> throws that error.
  \<^item> When \<open>symbolize\<close> throws, the resource pool with the cached images is as it was before
    the call.
  \<^item> When it throws on the cached path, the surface has received the preparation call and
    nothing else: it is not rotated.
  \<^item> When it throws on the live path, the surface has received the two preparation calls
    and no shape, and the throw comes from the first instance drawn, the last of the
    points. If a rotation is defined for that instance, the surface is left translated to
    the instance and rotated, with the saved state still on its stack; if none is, the
    line cap, the transform and the stack of saved states are what they were.
  \<^item> When no rotation is defined for any instance, the line cap, the transform and the
    stack of saved states are, at every exit of \<open>symbolize\<close>, what they were before.
\<close>

theorem drawVectorMarker_unsupported:
  "let kind = toLowerCase (markerType (style self));
       supported = (kind \<in> {''ellipse'', ''cross'', ''x'', ''diamond'', ''square'', ''bar'',
                            ''triangle'', ''pin'', ''pie''});
       pts = renderContainerPoints (geometry self);
       live = (isSpriting (geometry self) \<or> maskIsGeometry (geometry self) \<or> dynamic self
               \<or> cacheVectorOnCanvas (geometry self) = Some False);
       r = symbolize ns gs (self, ctx, res);
       self' = fst (stateOf r);
       ctx' = fst (snd (stateOf r));
       res' = snd (snd (stateOf r))
   in (\<not> supported \<longrightarrow>
         drawVectorMarker self ctx point =
           Throw (UnsupportedMarkerType kind) (prepareGradient self ctx point))
    \<and> (supported \<longrightarrow> isNormal (drawVectorMarker self ctx point))
    \<and> isNormal r =
        (supported \<or> markerWidth (style self) = 0 \<or> markerHeight (style self) = 0 \<or> pts = []
         \<or> (\<not> live \<and> getImage res (fst (stampSymbol ns gs self)) \<noteq> None))
    \<and> (\<not> isNormal r \<longrightarrow> errorOf r = Some (UnsupportedMarkerType kind) \<and> res' = res)
    \<and> (\<not> isNormal r \<and> \<not> live \<longrightarrow> ctx' = issue ctx PrepareContext)
    \<and> (\<not> isNormal r \<and> live \<longrightarrow>
         calls ctx' = calls ctx @ [PrepareContext, PrepareCanvas (strokeAndFill self')]
         \<and> surfaceState ctx' =
             (case rotationAt (geometry self) (length pts - 1) of
                None \<Rightarrow> surfaceState ctx
              | Some rot \<Rightarrow>
                  (ctxLineCap ctx,
                   transform ctx @ [Translate (px (last pts)) (py (last pts)), Rotate rot],
                   (ctxLineCap ctx, transform ctx) # saved ctx)))
    \<and> (rotationAt (geometry self) = (\<lambda>i. None) \<longrightarrow> surfaceState ctx' = surfaceState ctx)"
  unfolding Let_def
  using drawVectorMarker_throw [of self ctx point] drawVectorMarker_normal [of self ctx point]
    symbolize_normal_iff [of ns gs self ctx res]
    symbolize_thrown [of ns gs self ctx res]
    symbolize_throw_resources [of ns gs self ctx res] symbolize_no_rotation [of self ns gs ctx res]
  by blast

text \<open>
  The marker type \<open>star\<close>, one point to render at \<open>(5, 5)\<close>, on a fresh surface. A single
  draw throws. On the cached path with an empty resource pool \<open>symbolize\<close> throws the
  error for \<open>star\<close>, the pool stays empty, the surface has received the preparation call
  only, and its state is as before (no rotation is defined). With an image in the pool
  \<open>symbolize\<close> returns. Drawn live with a rotation of 1 defined, \<open>symbolize\<close> throws after
  the two preparation calls and leaves the surface rotated. The marker type \<open>ellipse\<close>
  returns, in a single draw and in \<open>symbolize\<close>.
\<close>

theorem drawVectorMarker_unsupported_witness:
  "drawVectorMarker
      (constructor ((emptySymbol :: unit symbol)\<lparr>sym_markerType := Some ''star''\<rparr>) onePoint False)
      newContext (Point 5 5) =
     Throw (UnsupportedMarkerType ''star'')
       (constructor ((emptySymbol :: unit symbol)\<lparr>sym_markerType := Some ''star''\<rparr>) onePoint False,
        newContext)
   \<and> isNormal (drawVectorMarker (constructor (emptySymbol :: unit symbol) onePoint False)
        newContext (Point 5 5))
   \<and> isNormal (symbolize (\<lambda>r. []) (\<lambda>g. [])
        (constructor (emptySymbol :: unit symbol) onePoint False, newContext, Map.empty))
   \<and> isNormal (symbolize (\<lambda>r. []) (\<lambda>g. [])
        (constructor ((emptySymbol :: unit symbol)\<lparr>sym_markerType := Some ''star''\<rparr>) onePoint False,
         newContext, (\<lambda>url. Some (Canvas 12 12 []))))
   \<and> \<not> isNormal (symbolize (\<lambda>r. []) (\<lambda>g. [])
        (constructor ((emptySymbol :: unit symbol)\<lparr>sym_markerType := Some ''star''\<rparr>) onePoint False,
         newContext, Map.empty))
   \<and> errorOf (symbolize (\<lambda>r. []) (\<lambda>g. [])
        (constructor ((emptySymbol :: unit symbol)\<lparr>sym_markerType := Some ''star''\<rparr>) onePoint False,
         newContext, Map.empty)) = Some (UnsupportedMarkerType ''star'')
   \<and> snd (snd (stateOf (symbolize (\<lambda>r. []) (\<lambda>g. [])
        (constructor ((emptySymbol :: unit symbol)\<lparr>sym_markerType := Some ''star''\<rparr>) onePoint False,
         newContext, Map.empty)))) = Map.empty
   \<and> fst (snd (stateOf (symbolize (\<lambda>r. []) (\<lambda>g. [])
        (constructor ((emptySymbol :: unit symbol)\<lparr>sym_markerType := Some ''star''\<rparr>) onePoint False,
         newContext, Map.empty)))) = issue newContext PrepareContext
   \<and> rotationAt onePoint = (\<lambda>i. None)
   \<and> surfaceState (fst (snd (stateOf (symbolize (\<lambda>r. []) (\<lambda>g. [])
        (constructor ((emptySymbol :: unit symbol)\<lparr>sym_markerType := Some ''star''\<rparr>) onePoint False,
         newContext, Map.empty))))) = (''butt'', [], [])
   \<and> \<not> isNormal (symbolize (\<lambda>r. []) (\<lambda>g. [])
        (constructor ((emptySymbol :: unit symbol)\<lparr>sym_markerType := Some ''star''\<rparr>)
           (onePoint\<lparr>rotationAt := (\<lambda>i. Some 1)\<rparr>) True,
         newContext, Map.empty))
   \<and> calls (fst (snd (stateOf (symbolize (\<lambda>r. []) (\<lambda>g. [])
        (constructor ((emptySymbol :: unit symbol)\<lparr>sym_markerType := Some ''star''\<rparr>)
           (onePoint\<lparr>rotationAt := (\<lambda>i. Some 1)\<rparr>) True,
         newContext, Map.empty))))) =
       [PrepareContext,
        PrepareCanvas (strokeAndFill (fst (stateOf (symbolize (\<lambda>r. []) (\<lambda>g. [])
          (constructor ((emptySymbol :: unit symbol)\<lparr>sym_markerType := Some ''star''\<rparr>)
             (onePoint\<lparr>rotationAt := (\<lambda>i. Some 1)\<rparr>) True,
           newContext, Map.empty)))))]
   \<and> surfaceState (fst (snd (stateOf (symbolize (\<lambda>r. []) (\<lambda>g. [])
        (constructor ((emptySymbol :: unit symbol)\<lparr>sym_markerType := Some ''star''\<rparr>)
           (onePoint\<lparr>rotationAt := (\<lambda>i. Some 1)\<rparr>) True,
         newContext, Map.empty))))) = (''butt'', [Translate 5 5, Rotate 1], [(''butt'', [])])"
proof -
  let ?star = "constructor ((emptySymbol :: unit symbol)\<lparr>sym_markerType := Some ''star''\<rparr>) onePoint False"
  let ?live = "constructor ((emptySymbol :: unit symbol)\<lparr>sym_markerType := Some ''star''\<rparr>)
      (onePoint\<lparr>rotationAt := (\<lambda>i. Some 1)\<rparr>) True"
  let ?ell = "constructor (emptySymbol :: unit symbol) onePoint False"
  let ?ns = "\<lambda>r :: real. []"
  let ?gs = "\<lambda>g :: unit. []"
  let ?full = "\<lambda>url :: string. Some (Canvas 12 12 ([] :: unit call list))"
  have pg: "prepareGradient ?star newContext (Point 5 5) = (?star, newContext)"
    by (simp add: prepareGradient_def Let_def translate_emptySymbol translateLineAndFill_def
        isGradient_def)
  have s0: "surfaceState (newContext :: unit surface) = (''butt'', [], [])"
    "ctxLineCap (newContext :: unit surface) = ''butt''"
    "transform (newContext :: unit surface) = []"
    "saved (newContext :: unit surface) = []"
    "calls (newContext :: unit surface) = []"
    by (simp_all add: surfaceState_def newContext_def)
  have g: "renderContainerPoints onePoint = [Point 5 5]" "rotationAt onePoint = (\<lambda>i. None)"
    "\<not> isSpriting onePoint" "\<not> maskIsGeometry onePoint" "cacheVectorOnCanvas onePoint = None"
    by (simp_all add: onePoint_def)
  have cached: "drawVectorMarker ?star newContext (Point 5 5) =
        Throw (UnsupportedMarkerType ''star'') (?star, newContext)
      \<and> \<not> isNormal (symbolize ?ns ?gs (?star, newContext, Map.empty))
      \<and> errorOf (symbolize ?ns ?gs (?star, newContext, Map.empty)) =
          Some (UnsupportedMarkerType ''star'')
      \<and> snd (snd (stateOf (symbolize ?ns ?gs (?star, newContext, Map.empty)))) = Map.empty
      \<and> fst (snd (stateOf (symbolize ?ns ?gs (?star, newContext, Map.empty)))) =
          issue newContext PrepareContext
      \<and> surfaceState (fst (snd (stateOf (symbolize ?ns ?gs (?star, newContext, Map.empty))))) =
          (''butt'', [], [])"
    using drawVectorMarker_unsupported [of ?star ?ns ?gs newContext Map.empty "Point 5 5"]
    by (simp add: Let_def translate_emptySymbol getValueOrDefault_def g s0 pg getImage_def)
  have hit: "isNormal (symbolize ?ns ?gs (?star, newContext, ?full))"
    using drawVectorMarker_unsupported [of ?star ?ns ?gs newContext ?full "Point 5 5"]
    by (simp add: Let_def translate_emptySymbol getValueOrDefault_def g getImage_def)
  have ell: "isNormal (drawVectorMarker ?ell newContext (Point 5 5))
      \<and> isNormal (symbolize ?ns ?gs (?ell, newContext, Map.empty))"
    using drawVectorMarker_unsupported [of ?ell ?ns ?gs newContext Map.empty "Point 5 5"]
    by (simp add: Let_def translate_empty)
  have live: "\<not> isNormal (symbolize ?ns ?gs (?live, newContext, Map.empty))
      \<and> calls (fst (snd (stateOf (symbolize ?ns ?gs (?live, newContext, Map.empty))))) =
          [PrepareContext,
           PrepareCanvas (strokeAndFill (fst (stateOf (symbolize ?ns ?gs (?live, newContext, Map.empty)))))]
      \<and> surfaceState (fst (snd (stateOf (symbolize ?ns ?gs (?live, newContext, Map.empty))))) =
          (''butt'', [Translate 5 5, Rotate 1], [(''butt'', [])])"
    using drawVectorMarker_unsupported [of ?live ?ns ?gs newContext Map.empty "Point 5 5"]
    by (simp add: Let_def translate_emptySymbol getValueOrDefault_def g s0)
  from cached hit ell live g(2) show ?thesis by blast
qed

end
